theory Spec2Isabelle
  imports Complex_Main "HOL-Library.Signed_Division" "HOL-Library.Monad_Syntax"
begin

section \<open>Configuration and numeric conventions\<close>

text \<open>
  The development embeds \<^verbatim>\<open>src/world/World.cpp\<close>. The header \<^verbatim>\<open>World.h\<close> and the
  class \<^verbatim>\<open>SimplexNoise\<close> are not part of the sources at hand, so the constants they
  declare and the noise function are parameters, collected in one record.
  The generation radius and the two ceilings are literals in \<^verbatim>\<open>world_generation_fn\<close>
  (10, 1000 and 100); they are fields here so that the code can also be run in the
  scenario with radius 1 and ceiling 9; \<open>demo_config\<close> below carries the literals
  of the source.

  C++ \<^verbatim>\<open>float\<close> values are idealised as \<^typ>\<open>real\<close>: rounding, infinities and NaN
  are outside the model, so a wavelength of an octave is taken to be different from 0
  and a vector to be normalised different from the null vector.
  \<^verbatim>\<open>int32_t\<close> and \<^verbatim>\<open>int\<close> values are \<^typ>\<open>int\<close>. The conversion of a position to
  \<^verbatim>\<open>int32_t\<close> and the arithmetic of \<^verbatim>\<open>world_generation_fn\<close> on the coordinates of
  its calls check the range of \<^verbatim>\<open>int32_t\<close>: a signed overflow is undefined behaviour,
  here \<open>None\<close>. The sums of a chunk coordinate and a row or column number inside the
  build are taken on \<^typ>\<open>int\<close> as they are.
\<close>

type_synonym vec3 = "real \<times> real \<times> real"

record config =
  CHUNK_SIZE :: int
  CHUNK_BIOME_COUNT :: int
  BIOME_HEIGHT_SCALING_FACTORS :: "real list"
  CHUNK_GENERATION_OCTAVES :: "(real \<times> real) list"
  CHUNK_GENERATION_MAX_HEIGHT :: real
  CHUNK_GENERATION_NORMAL_DELTA :: real
  noise :: "real \<Rightarrow> real \<Rightarrow> real"
  chunk_generation_radius :: int
  chunk_ceiling :: nat
  object_ceiling :: nat

text \<open>The cast \<^verbatim>\<open>(int) f\<close> of C++ discards the fractional part (rounds towards zero).\<close>

definition float_to_int :: "real \<Rightarrow> int" where
  "float_to_int r = (if r < 0 then \<lceil>r\<rceil> else \<lfloor>r\<rfloor>)"

text \<open>\<^verbatim>\<open>(int32_t) f\<close>: undefined when the truncated value does not fit, here \<open>None\<close>.\<close>

definition float_to_int32 :: "real \<Rightarrow> int option" where
  "float_to_int32 r =
     (let k = float_to_int r in if - (2 ^ 31) \<le> k \<and> k < 2 ^ 31 then Some k else None)"

text \<open>The values of \<^verbatim>\<open>int32_t\<close>.\<close>

definition int32_range :: "int \<Rightarrow> bool" where
  "int32_range k \<longleftrightarrow> - (2 ^ 31) \<le> k \<and> k < 2 ^ 31"

text \<open>
  Reading a C array at an index: defined only inside the array. An access outside is
  undefined behaviour in C++, here \<open>None\<close>.
\<close>

definition array_read :: "'a list \<Rightarrow> int \<Rightarrow> 'a option" where
  "array_read xs i = (if 0 \<le> i \<and> i < int (length xs) then Some (xs ! nat i) else None)"

section \<open>Height field\<close>

text \<open>\<^verbatim>\<open>getBiomeNoise\<close> (World.cpp, lines 88-91).\<close>

definition getBiomeNoise :: "config \<Rightarrow> real \<Rightarrow> real \<Rightarrow> real" where
  "getBiomeNoise cfg x z = (noise cfg (x / 100) (z / 100) + 1) / 2"

text \<open>The index expression \<^verbatim>\<open>(int) (biome_noise * CHUNK_BIOME_COUNT)\<close> of line 101.\<close>

definition biome_index :: "config \<Rightarrow> real \<Rightarrow> int" where
  "biome_index cfg biome_noise = float_to_int (biome_noise * of_int (CHUNK_BIOME_COUNT cfg))"

text \<open>The loop over \<^verbatim>\<open>World::CHUNK_GENERATION_OCTAVES\<close> (lines 105-107); an octave is
  the pair of \<^verbatim>\<open>octave[0]\<close> and \<^verbatim>\<open>octave[1]\<close>.\<close>

fun octave_loop :: "config \<Rightarrow> real \<Rightarrow> real \<Rightarrow> (real \<times> real) list \<Rightarrow> real \<Rightarrow> real" where
  "octave_loop cfg x z [] resultingHeight = resultingHeight"
| "octave_loop cfg x z (octave # rest) resultingHeight =
     octave_loop cfg x z rest
       (resultingHeight + noise cfg (x / fst octave) (z / fst octave) * snd octave)"

text \<open>\<^verbatim>\<open>getChunkHeight\<close> (lines 96-110).\<close>

definition getChunkHeight :: "config \<Rightarrow> real \<Rightarrow> real \<Rightarrow> real option" where
  "getChunkHeight cfg x0 z0 =
     (let x = x0 / 10;
          z = z0 / 10;
          biome_noise = getBiomeNoise cfg x z
      in case array_read (BIOME_HEIGHT_SCALING_FACTORS cfg) (biome_index cfg biome_noise) of
           None \<Rightarrow> None
         | Some factor \<Rightarrow>
             (let biome_height_factor = factor * biome_noise;
                  resultingHeight = octave_loop cfg x z (CHUNK_GENERATION_OCTAVES cfg) 0;
                  resultingHeight = resultingHeight * CHUNK_GENERATION_MAX_HEIGHT cfg
              in Some (biome_height_factor * resultingHeight)))"

text \<open>\<^verbatim>\<open>glm::dot\<close>, \<^verbatim>\<open>glm::normalize\<close> (the vector times the inverse square root of its
  dot product with itself) and \<^verbatim>\<open>getNormalVector\<close> (lines 117-126).\<close>

definition dot :: "vec3 \<Rightarrow> vec3 \<Rightarrow> real" where
  "dot u v = (case u of (a, b, c) \<Rightarrow> case v of (d, e, f) \<Rightarrow> a * d + b * e + c * f)"

definition normalize_vec3 :: "vec3 \<Rightarrow> vec3" where
  "normalize_vec3 v =
     (case v of (a, b, c) \<Rightarrow> let s = 1 / sqrt (dot v v) in (a * s, b * s, c * s))"

definition getNormalVector :: "config \<Rightarrow> real \<Rightarrow> real \<Rightarrow> vec3 option" where
  "getNormalVector cfg x z =
     (let d = CHUNK_GENERATION_NORMAL_DELTA cfg in
      (case getChunkHeight cfg (x - d) z of None \<Rightarrow> None | Some height1 \<Rightarrow>
      (case getChunkHeight cfg (x + d) z of None \<Rightarrow> None | Some height2 \<Rightarrow>
      (case getChunkHeight cfg x (z - d) of None \<Rightarrow> None | Some height3 \<Rightarrow>
      (case getChunkHeight cfg x (z + d) of None \<Rightarrow> None | Some height4 \<Rightarrow>
         Some (normalize_vec3 (height1 - height2, 2 * d, height3 - height4)))))))"

text \<open>The recentring expression of lines 32-33, for one axis:
  \<^verbatim>\<open>((int32_t) position) / CHUNK_SIZE * CHUNK_SIZE\<close>. The division of C++ truncates,
  and a division by zero is undefined.\<close>

definition chunk_align :: "config \<Rightarrow> real \<Rightarrow> int option" where
  "chunk_align cfg p =
     (case float_to_int32 p of
        None \<Rightarrow> None
      | Some k \<Rightarrow>
          if CHUNK_SIZE cfg = 0 then None
          else Some ((k sdiv CHUNK_SIZE cfg) * CHUNK_SIZE cfg))"

text \<open>The argument expressions \<^verbatim>\<open>px + x * CHUNK_SIZE\<close> and \<^verbatim>\<open>pz + z * CHUNK_SIZE\<close> of
  lines 38-41, for one axis: the product and the sum are computed in \<^verbatim>\<open>int32_t\<close>.\<close>

definition chunk_coordinate :: "config \<Rightarrow> int \<Rightarrow> int \<Rightarrow> int option" where
  "chunk_coordinate cfg p offset =
     (let step = offset * CHUNK_SIZE cfg in
      if int32_range step \<and> int32_range (p + step) then Some (p + step) else None)"

text \<open>
  The sum that the loop over the octaves computes, and two definitions that follow the
  words of the specification rather than the code, for comparison with it:
  \<open>height_claimed\<close> is the height as the specification describes it (the octave sum
  times the scaling constant of the biome band times the maximum height), and
  \<open>floor_align\<close> is the greatest multiple of \<^verbatim>\<open>CHUNK_SIZE\<close> that does not exceed
  a position.
\<close>

definition octave_sum :: "config \<Rightarrow> real \<Rightarrow> real \<Rightarrow> real" where
  "octave_sum cfg x z =
     (\<Sum>octave\<leftarrow>CHUNK_GENERATION_OCTAVES cfg. noise cfg (x / fst octave) (z / fst octave) * snd octave)"

definition height_claimed :: "config \<Rightarrow> real \<Rightarrow> real \<Rightarrow> real option" where
  "height_claimed cfg x0 z0 =
     (let x = x0 / 10; z = z0 / 10 in
      case array_read (BIOME_HEIGHT_SCALING_FACTORS cfg) (biome_index cfg (getBiomeNoise cfg x z)) of
        None \<Rightarrow> None
      | Some band \<Rightarrow> Some (octave_sum cfg x z * band * CHUNK_GENERATION_MAX_HEIGHT cfg))"

definition floor_align :: "config \<Rightarrow> real \<Rightarrow> int" where
  "floor_align cfg p = \<lfloor>p / of_int (CHUNK_SIZE cfg)\<rfloor> * CHUNK_SIZE cfg"

section \<open>Chunk builder\<close>

text \<open>
  The structures of \<^verbatim>\<open>World.h\<close> as \<^verbatim>\<open>World.cpp\<close> uses them. A block obtained from
  \<^verbatim>\<open>malloc\<close> is a list of cells, each \<open>None\<close> until it is written; writing outside
  the block is undefined behaviour, here \<open>None\<close>. The fields \<^verbatim>\<open>x\<close> and \<^verbatim>\<open>z\<close> of
  \<^verbatim>\<open>chunk_t\<close> and the six initialised fields of \<^verbatim>\<open>vertex_t\<close> carry the structure's
  name as a prefix.
\<close>

record vertex_t =
  vertex_t_x :: real
  vertex_t_y :: real
  vertex_t_z :: real
  vertex_t_nx :: real
  vertex_t_ny :: real
  vertex_t_nz :: real

record vbo_data_t =
  vertices :: "vertex_t option list"
  vertices_count :: int
  indices :: "int option list"
  indices_count :: int

text \<open>The mesh object built by \<^verbatim>\<open>VBO::withVertices\<close>, \<^verbatim>\<open>withIndices\<close> and \<^verbatim>\<open>build\<close>
  (an external collaborator): it holds the first \<^verbatim>\<open>count\<close> cells of each array.\<close>

record VBO =
  vbo_vertices :: "vertex_t option list"
  vbo_indices :: "int option list"

record chunk_t =
  chunk_t_x :: int
  chunk_t_z :: int
  height_map :: "real option list"
  mesh :: "VBO option"

record immature_chunk_data_t =
  chunk :: chunk_t
  mesh_data :: vbo_data_t

definition malloc :: "int \<Rightarrow> 'a option list" where
  "malloc n = replicate (nat n) None"

definition array_write :: "'a option list \<Rightarrow> int \<Rightarrow> 'a \<Rightarrow> 'a option list option" where
  "array_write xs i v =
     (if 0 \<le> i \<and> i < int (length xs) then Some (xs[nat i := Some v]) else None)"

text \<open>The local variables of \<^verbatim>\<open>World::generateChunk\<close> that the two loops change.\<close>

record build_state =
  data_points :: "real option list"
  indices_buf :: "int option list"
  vertices_buf :: "vertex_t option list"
  indices_index :: int
  vertices_index :: int

text \<open>\<^verbatim>\<open>indices[ indices_index++ ] = v\<close> and \<^verbatim>\<open>vertices[ vertices_index++ ] = v\<close>.\<close>

definition push_index :: "int \<Rightarrow> build_state \<Rightarrow> build_state option" where
  "push_index v s =
     (case array_write (indices_buf s) (indices_index s) v of
        None \<Rightarrow> None
      | Some a \<Rightarrow> Some (s\<lparr>indices_buf := a, indices_index := indices_index s + 1\<rparr>))"

definition push_vertex :: "vertex_t \<Rightarrow> build_state \<Rightarrow> build_state option" where
  "push_vertex v s =
     (case array_write (vertices_buf s) (vertices_index s) v of
        None \<Rightarrow> None
      | Some a \<Rightarrow> Some (s\<lparr>vertices_buf := a, vertices_index := vertices_index s + 1\<rparr>))"

text \<open>\<^verbatim>\<open>data_points[ k ] = cy\<close>.\<close>

definition store_height :: "int \<Rightarrow> real \<Rightarrow> build_state \<Rightarrow> build_state option" where
  "store_height k cy s =
     (case array_write (data_points s) k cy of
        None \<Rightarrow> None
      | Some a \<Rightarrow> Some (s\<lparr>data_points := a\<rparr>))"

text \<open>The body of the inner loop (lines 192-224) at row \<open>i\<close> and column \<open>j\<close>.\<close>

definition generate_point ::
  "config \<Rightarrow> int \<Rightarrow> int \<Rightarrow> int \<Rightarrow> int \<Rightarrow> build_state \<Rightarrow> build_state option" where
  "generate_point cfg x z i j s =
     (let point_x = x + i;
          point_z = z + j;
          cx = of_int point_x - 1 / 2;
          cz = of_int point_z - 1 / 2
      in do {
        cy \<leftarrow> getChunkHeight cfg cx cz;
        normal \<leftarrow> getNormalVector cfg cx cz;
        s1 \<leftarrow> push_vertex
               \<lparr>vertex_t_x = cx, vertex_t_y = cy, vertex_t_z = cz,
                vertex_t_nx = fst normal, vertex_t_ny = fst (snd normal),
                vertex_t_nz = snd (snd normal)\<rparr> s;
        if i < CHUNK_SIZE cfg \<and> j < CHUNK_SIZE cfg then
          (let mesh_width = CHUNK_SIZE cfg + 1;
               top_left = i * mesh_width + j;
               bottom_left = (i + 1) * mesh_width + j;
               top_right = i * mesh_width + (j + 1);
               bottom_right = (i + 1) * mesh_width + (j + 1)
           in do {
             s2 \<leftarrow> store_height (i * CHUNK_SIZE cfg + j) cy s1;
             s3 \<leftarrow> push_index top_left s2;
             s4 \<leftarrow> push_index top_right s3;
             s5 \<leftarrow> push_index bottom_left s4;
             s6 \<leftarrow> push_index top_right s5;
             s7 \<leftarrow> push_index bottom_right s6;
             push_index bottom_left s7
           })
        else Some s1
      })"

text \<open>The inner loop \<^verbatim>\<open>for (j = 0; j <= CHUNK_SIZE; j++)\<close>, from column \<open>j\<close> on, and the
  outer loop \<^verbatim>\<open>for ( i = 0; i <= CHUNK_SIZE; i++ )\<close>, from row \<open>i\<close> on.\<close>

function generate_columns ::
  "config \<Rightarrow> int \<Rightarrow> int \<Rightarrow> int \<Rightarrow> int \<Rightarrow> build_state \<Rightarrow> build_state option" where
  "generate_columns cfg x z i j s =
     (if j \<le> CHUNK_SIZE cfg then
        (case generate_point cfg x z i j s of
           None \<Rightarrow> None
         | Some s' \<Rightarrow> generate_columns cfg x z i (j + 1) s')
      else Some s)"
  by pat_completeness auto
termination
  by (relation "measure (\<lambda>(cfg, x, z, i, j, s). nat (CHUNK_SIZE cfg + 1 - j))") auto

function generate_rows ::
  "config \<Rightarrow> int \<Rightarrow> int \<Rightarrow> int \<Rightarrow> build_state \<Rightarrow> build_state option" where
  "generate_rows cfg x z i s =
     (if i \<le> CHUNK_SIZE cfg then
        (case generate_columns cfg x z i 0 s of
           None \<Rightarrow> None
         | Some s' \<Rightarrow> generate_rows cfg x z (i + 1) s')
      else Some s)"
  by pat_completeness auto
termination
  by (relation "measure (\<lambda>(cfg, x, z, i, s). nat (CHUNK_SIZE cfg + 1 - i))") auto

text \<open>Lines 167-241 of \<^verbatim>\<open>World::generateChunk\<close>: the allocations, the two loops and the
  record handed to the queue. The field \<^verbatim>\<open>mesh\<close> of the new chunk is not set there.\<close>

definition build_chunk :: "config \<Rightarrow> int \<Rightarrow> int \<Rightarrow> immature_chunk_data_t option" where
  "build_chunk cfg x z =
     (let mesh_width = CHUNK_SIZE cfg + 1;
          count = CHUNK_SIZE cfg * CHUNK_SIZE cfg * 6;
          s0 = \<lparr>data_points = malloc (CHUNK_SIZE cfg * CHUNK_SIZE cfg),
                indices_buf = malloc count,
                vertices_buf = malloc (mesh_width * mesh_width),
                indices_index = 0, vertices_index = 0\<rparr>
      in case generate_rows cfg x z 0 s0 of
           None \<Rightarrow> None
         | Some s \<Rightarrow>
             Some \<lparr>chunk = \<lparr>chunk_t_x = x, chunk_t_z = z,
                            height_map = data_points s, mesh = None\<rparr>,
                   mesh_data = \<lparr>vertices = vertices_buf s,
                                vertices_count = mesh_width * mesh_width,
                                indices = indices_buf s,
                                indices_count = count\<rparr>\<rparr>)"

text \<open>
  What the build is expected to leave in its three arrays. The sample point of row
  \<open>i\<close> and column \<open>j\<close> has a height and a vertex; a cell of the core grid has two
  triangles over the row-major numbering of the vertices with rows of width
  \<^verbatim>\<open>CHUNK_SIZE + 1\<close>: top-left, top-right, bottom-left and top-right, bottom-right,
  bottom-left. The height grid lists the core cells row by row, the index array their
  triangles, the vertex array all sample points. \<open>built_chunk\<close> is the record with
  these contents; the theorems below show that \<open>build_chunk\<close> returns it.
\<close>

definition point_height :: "config \<Rightarrow> int \<Rightarrow> int \<Rightarrow> int \<Rightarrow> int \<Rightarrow> real option" where
  "point_height cfg x z i j = getChunkHeight cfg (of_int (x + i) - 1 / 2) (of_int (z + j) - 1 / 2)"

definition point_vertex :: "config \<Rightarrow> int \<Rightarrow> int \<Rightarrow> int \<Rightarrow> int \<Rightarrow> vertex_t option" where
  "point_vertex cfg x z i j =
     (let cx = of_int (x + i) - 1 / 2; cz = of_int (z + j) - 1 / 2 in
      do {
        cy \<leftarrow> getChunkHeight cfg cx cz;
        normal \<leftarrow> getNormalVector cfg cx cz;
        Some \<lparr>vertex_t_x = cx, vertex_t_y = cy, vertex_t_z = cz,
              vertex_t_nx = fst normal, vertex_t_ny = fst (snd normal),
              vertex_t_nz = snd (snd normal)\<rparr>
      })"

definition cell_indices :: "config \<Rightarrow> int \<Rightarrow> int \<Rightarrow> int list" where
  "cell_indices cfg i j =
     (let row = CHUNK_SIZE cfg + 1;
          top_left = i * row + j;
          top_right = i * row + (j + 1);
          bottom_left = (i + 1) * row + j;
          bottom_right = (i + 1) * row + (j + 1)
      in [top_left, top_right, bottom_left, top_right, bottom_right, bottom_left])"

definition core_heights :: "config \<Rightarrow> int \<Rightarrow> int \<Rightarrow> real option list" where
  "core_heights cfg x z =
     concat (map (\<lambda>i. map (point_height cfg x z i) [0..CHUNK_SIZE cfg - 1])
               [0..CHUNK_SIZE cfg - 1])"

definition expected_indices :: "config \<Rightarrow> int list" where
  "expected_indices cfg =
     concat (map (\<lambda>i. concat (map (cell_indices cfg i) [0..CHUNK_SIZE cfg - 1]))
               [0..CHUNK_SIZE cfg - 1])"

definition expected_vertices :: "config \<Rightarrow> int \<Rightarrow> int \<Rightarrow> vertex_t option list" where
  "expected_vertices cfg x z =
     concat (map (\<lambda>i. map (point_vertex cfg x z i) [0..CHUNK_SIZE cfg]) [0..CHUNK_SIZE cfg])"

definition built_chunk :: "config \<Rightarrow> int \<Rightarrow> int \<Rightarrow> immature_chunk_data_t" where
  "built_chunk cfg x z =
     \<lparr>chunk = \<lparr>chunk_t_x = x, chunk_t_z = z,
                height_map = core_heights cfg x z, mesh = None\<rparr>,
      mesh_data = \<lparr>vertices = expected_vertices cfg x z,
                   vertices_count = (CHUNK_SIZE cfg + 1) * (CHUNK_SIZE cfg + 1),
                   indices = map Some (expected_indices cfg),
                   indices_count = CHUNK_SIZE cfg * CHUNK_SIZE cfg * 6\<rparr>\<rparr>"

text \<open>
  The build depends on every height it samples being defined, that is, on every read
  of the biome table being inside the table.
\<close>

definition heights_defined :: "config \<Rightarrow> bool" where
  "heights_defined cfg \<longleftrightarrow> (\<forall>a b. getChunkHeight cfg a b \<noteq> None)"

text \<open>
  Auxiliary notions for the loop invariants: an array of \<open>n\<close> cells whose first cells
  hold \<open>ys\<close> and whose other cells are still unwritten; the state of the build with the
  three arrays filled that far; and what one row, from a column on, and the rows from
  a row on, add to the arrays.
\<close>

definition filled :: "nat \<Rightarrow> 'a option list \<Rightarrow> 'a option list" where
  "filled n ys = ys @ replicate (n - length ys) None"

definition bstate ::
  "nat \<Rightarrow> nat \<Rightarrow> nat \<Rightarrow> real option list \<Rightarrow> int option list \<Rightarrow> vertex_t option list \<Rightarrow> build_state" where
  "bstate n1 n2 n3 hs is vs =
     \<lparr>data_points = filled n1 hs, indices_buf = filled n2 is, vertices_buf = filled n3 vs,
      indices_index = int (length is), vertices_index = int (length vs)\<rparr>"

definition row_heights :: "config \<Rightarrow> int \<Rightarrow> int \<Rightarrow> int \<Rightarrow> int \<Rightarrow> real option list" where
  "row_heights cfg x z i j =
     (if i < CHUNK_SIZE cfg then map (point_height cfg x z i) [j..CHUNK_SIZE cfg - 1] else [])"

definition row_indices :: "config \<Rightarrow> int \<Rightarrow> int \<Rightarrow> int option list" where
  "row_indices cfg i j =
     (if i < CHUNK_SIZE cfg
      then concat (map (\<lambda>j. map Some (cell_indices cfg i j)) [j..CHUNK_SIZE cfg - 1]) else [])"

definition row_vertices :: "config \<Rightarrow> int \<Rightarrow> int \<Rightarrow> int \<Rightarrow> int \<Rightarrow> vertex_t option list" where
  "row_vertices cfg x z i j = map (point_vertex cfg x z i) [j..CHUNK_SIZE cfg]"

definition grid_heights :: "config \<Rightarrow> int \<Rightarrow> int \<Rightarrow> int \<Rightarrow> real option list" where
  "grid_heights cfg x z i = concat (map (\<lambda>i. row_heights cfg x z i 0) [i..CHUNK_SIZE cfg])"

definition grid_indices :: "config \<Rightarrow> int \<Rightarrow> int option list" where
  "grid_indices cfg i = concat (map (\<lambda>i. row_indices cfg i 0) [i..CHUNK_SIZE cfg])"

definition grid_vertices :: "config \<Rightarrow> int \<Rightarrow> int \<Rightarrow> int \<Rightarrow> vertex_t option list" where
  "grid_vertices cfg x z i = concat (map (\<lambda>i. row_vertices cfg x z i 0) [i..CHUNK_SIZE cfg])"

section \<open>World, generation worker and frame loop\<close>

text \<open>
  The generation thread runs \<^verbatim>\<open>world_generation_fn\<close> while the main thread calls
  \<^verbatim>\<open>World::render\<close> once per frame. Both are modelled as steps on one state: a step of
  the worker is one evaluation of a guard at the head of the function or of the
  \<^verbatim>\<open>while\<close> loop, or one call of \<^verbatim>\<open>generateChunk\<close>; a schedule is a list of steps
  in the order in which they happen. Each call is taken as atomic, which is the most
  the unsynchronised code can hope for.

  The control state of the worker: at the entry of \<^verbatim>\<open>world_generation_fn\<close>, at the
  head of the \<^verbatim>\<open>while\<close> loop, before the call of \<^verbatim>\<open>generateChunk\<close> with the values
  of \<^verbatim>\<open>px\<close>, \<^verbatim>\<open>pz\<close>, \<^verbatim>\<open>x\<close> and \<^verbatim>\<open>z\<close>, returned, or stopped by undefined
  behaviour.
\<close>

datatype pc = Entry | LoopHead | Ring int int int int | Returned | Faulted

text \<open>What an observer of a run can see: a line on \<^verbatim>\<open>std::cerr\<close>, a call of
  \<^verbatim>\<open>generateChunk\<close> that ran the full build and queued its payload, a call that
  returned from the scan of \<^verbatim>\<open>chunks\<close>, a chunk added to \<^verbatim>\<open>chunks\<close> by
  \<^verbatim>\<open>generateChunkMesh\<close>, and an access of the worker to a destroyed World.\<close>

datatype event =
  Diagnostic string
  | Build int int
  | Duplicate int int
  | Upload int int
  | UseAfterDestroy

text \<open>
  The fields of \<^verbatim>\<open>World\<close> that \<^verbatim>\<open>World.cpp\<close> uses, and the surroundings of the
  object: \<open>worldGenerationThread\<close> is \<open>None\<close> for the null pointer and otherwise
  holds the control state of the thread it points to; \<open>observationPoint\<close> is the
  pointer given to the thread (\<open>None\<close> for \<^verbatim>\<open>nullptr\<close>) together with the current
  position of the \<^verbatim>\<open>Transformation\<close> behind it; \<open>destroyed\<close> holds once the
  destructor has run; \<open>trace\<close> is the sequence of events so far, which no operation
  reads. Drawables and world objects are opaque handles.
\<close>

record World =
  chunks :: "chunk_t list"
  chunkMeshGenerationQueue :: "immature_chunk_data_t list"
  drawables :: "nat list"
  worldObjects :: "nat list"
  worldGenerationThread :: "pc option"
  observationPoint :: "vec3 option"
  destroyed :: bool
  trace :: "event list"

text \<open>The scan at the head of \<^verbatim>\<open>World::generateChunk\<close> (lines 162-166).\<close>

fun chunk_present :: "int \<Rightarrow> int \<Rightarrow> chunk_t list \<Rightarrow> bool" where
  "chunk_present x z [] = False"
| "chunk_present x z (c # cs) =
     (if chunk_t_x c = x \<and> chunk_t_z c = z then True else chunk_present x z cs)"

text \<open>\<^verbatim>\<open>World::generateChunk\<close> (lines 160-245).\<close>

definition generateChunk :: "config \<Rightarrow> int \<Rightarrow> int \<Rightarrow> World \<Rightarrow> World option" where
  "generateChunk cfg x z w =
     (if chunk_present x z (chunks w) then Some (w\<lparr>trace := trace w @ [Duplicate x z]\<rparr>)
      else case build_chunk cfg x z of
             None \<Rightarrow> None
           | Some chunk_mesh_data \<Rightarrow>
               Some (w\<lparr>chunkMeshGenerationQueue :=
                          chunkMeshGenerationQueue w @ [chunk_mesh_data],
                        trace := trace w @ [Build x z]\<rparr>))"

text \<open>\<^verbatim>\<open>World::generateChunkMesh\<close> (lines 132-146).\<close>

definition generateChunkMesh :: "chunk_t \<Rightarrow> vbo_data_t \<Rightarrow> World \<Rightarrow> World" where
  "generateChunkMesh c vbo_data w =
     (let m = \<lparr>vbo_vertices = take (nat (vertices_count vbo_data)) (vertices vbo_data),
               vbo_indices = take (nat (indices_count vbo_data)) (indices vbo_data)\<rparr>
      in w\<lparr>chunks := chunks w @ [c\<lparr>mesh := Some m\<rparr>],
           trace := trace w @ [Upload (chunk_t_x c) (chunk_t_z c)]\<rparr>)"

text \<open>\<^verbatim>\<open>World::render\<close> (lines 61-82); the draw calls go to external objects and leave
  the World as it is.\<close>

definition render :: "World \<Rightarrow> World" where
  "render w =
     (case chunkMeshGenerationQueue w of
        [] \<Rightarrow> w
      | chunk_mesh_data # rest \<Rightarrow>
          (generateChunkMesh (chunk chunk_mesh_data) (mesh_data chunk_mesh_data) w)
            \<lparr>chunkMeshGenerationQueue := rest\<rparr>)"

text \<open>\<^verbatim>\<open>World::startWorldGeneration\<close> (lines 47-59).\<close>

definition startWorldGeneration :: "vec3 option \<Rightarrow> World \<Rightarrow> World" where
  "startWorldGeneration obs w =
     (if worldGenerationThread w \<noteq> None then w
      else w\<lparr>drawables := [], worldObjects := [],
             worldGenerationThread := Some Entry, observationPoint := obs\<rparr>)"

text \<open>
  \<^verbatim>\<open>world_generation_fn\<close> (lines 11-45), one step at a time. The loop variables run
  from \<open>- radius\<close> while they are below \<open>radius\<close>; inside the ring \<open>- radius < radius\<close>
  holds, so the inner loop of the next row starts with a call. The function has no
  way to learn that the World is gone: a step that reads the World after its
  destructor has run is undefined behaviour, which the model records as the event
  \<open>UseAfterDestroy\<close> and the control state \<open>Faulted\<close>, as it does, without an event,
  for a position outside \<^verbatim>\<open>int32_t\<close>, for a coordinate of a call that overflows
  \<^verbatim>\<open>int32_t\<close> and for a fault of the build.
\<close>

definition enter_ring :: "config \<Rightarrow> int \<Rightarrow> int \<Rightarrow> pc" where
  "enter_ring cfg px pz =
     (let r = chunk_generation_radius cfg in
      if - r < r then Ring px pz (- r) (- r) else LoopHead)"

definition next_ring :: "config \<Rightarrow> int \<Rightarrow> int \<Rightarrow> int \<Rightarrow> int \<Rightarrow> pc" where
  "next_ring cfg px pz x z =
     (let r = chunk_generation_radius cfg in
      if z + 1 < r then Ring px pz x (z + 1)
      else if x + 1 < r then Ring px pz (x + 1) (- r)
      else LoopHead)"

definition set_pc :: "pc \<Rightarrow> World \<Rightarrow> World" where
  "set_pc p w = w\<lparr>worldGenerationThread := Some p\<rparr>"

definition worker_step :: "config \<Rightarrow> World \<Rightarrow> World" where
  "worker_step cfg w =
     (case worldGenerationThread w of
        None \<Rightarrow> w
      | Some Returned \<Rightarrow> w
      | Some Faulted \<Rightarrow> w
      | Some Entry \<Rightarrow>
          (case observationPoint w of
             None \<Rightarrow>
               set_pc Returned
                 (w\<lparr>trace := trace w @
                      [Diagnostic ''No observation point provided, aborting world generation.'']\<rparr>)
           | Some p \<Rightarrow>
               if destroyed w then set_pc Faulted (w\<lparr>trace := trace w @ [UseAfterDestroy]\<rparr>)
               else if length (worldObjects w) > object_ceiling cfg then set_pc Returned w
               else set_pc LoopHead w)
      | Some LoopHead \<Rightarrow>
          if destroyed w then set_pc Faulted (w\<lparr>trace := trace w @ [UseAfterDestroy]\<rparr>)
          else if length (chunks w) > chunk_ceiling cfg then set_pc Returned w
          else
            (case observationPoint w of
               None \<Rightarrow> set_pc Faulted w
             | Some (ox, oy, oz) \<Rightarrow>
                 (case chunk_align cfg ox of
                    None \<Rightarrow> set_pc Faulted w
                  | Some px \<Rightarrow>
                      (case chunk_align cfg oz of
                         None \<Rightarrow> set_pc Faulted w
                       | Some pz \<Rightarrow> set_pc (enter_ring cfg px pz) w)))
      | Some (Ring px pz x z) \<Rightarrow>
          if destroyed w then set_pc Faulted (w\<lparr>trace := trace w @ [UseAfterDestroy]\<rparr>)
          else
            (case chunk_coordinate cfg px x of
               None \<Rightarrow> set_pc Faulted w
             | Some cx \<Rightarrow>
                 (case chunk_coordinate cfg pz z of
                    None \<Rightarrow> set_pc Faulted w
                  | Some cz \<Rightarrow>
                      (case generateChunk cfg cx cz w of
                         None \<Rightarrow> set_pc Faulted w
                       | Some w' \<Rightarrow> set_pc (next_ring cfg px pz x z) w'))))"

text \<open>
  \<^verbatim>\<open>World::~World\<close> (lines 247-275): the queue is emptied, the chunks are freed,
  the two collections are cleared, and the thread is detached before its handle is
  deleted. The thread itself is not told anything and goes on from where it is.
\<close>

definition World_destructor :: "World \<Rightarrow> World" where
  "World_destructor w =
     w\<lparr>chunkMeshGenerationQueue := [], chunks := [], drawables := [], worldObjects := [],
       destroyed := True\<rparr>"

text \<open>Schedules: the steps of the two threads and of the owner of the World, in the
  order in which they take effect. Once the World is destroyed its owner calls none
  of its member functions any more; the detached worker and the owner of the
  observation point go on.\<close>

datatype action =
  WorkerStep
  | FrameTick
  | MoveObservation vec3
  | StartGeneration "vec3 option"
  | Teardown

definition move_observation :: "vec3 \<Rightarrow> World \<Rightarrow> World" where
  "move_observation p w =
     (case observationPoint w of None \<Rightarrow> w | Some q \<Rightarrow> w\<lparr>observationPoint := Some p\<rparr>)"

fun perform :: "config \<Rightarrow> action \<Rightarrow> World \<Rightarrow> World" where
  "perform cfg WorkerStep w = worker_step cfg w"
| "perform cfg FrameTick w = (if destroyed w then w else render w)"
| "perform cfg (MoveObservation p) w = move_observation p w"
| "perform cfg (StartGeneration obs) w = (if destroyed w then w else startWorldGeneration obs w)"
| "perform cfg Teardown w = (if destroyed w then w else World_destructor w)"

fun run :: "config \<Rightarrow> action list \<Rightarrow> World \<Rightarrow> World" where
  "run cfg [] w = w"
| "run cfg (a # as) w = run cfg as (perform cfg a w)"

text \<open>A World as its constructor leaves it: nothing generated, no thread.\<close>

definition new_World :: World where
  "new_World =
     \<lparr>chunks = [], chunkMeshGenerationQueue = [], drawables = [], worldObjects = [],
      worldGenerationThread = None, observationPoint = None, destroyed = False,
      trace = []\<rparr>"

text \<open>
  Notions for stating what runs do: the coordinate of a chunk; the effect of one call
  of \<^verbatim>\<open>generateChunk\<close> whose build succeeds, and the event it leaves; the offsets of
  one pass of the two \<^verbatim>\<open>for\<close> loops in the order of the calls (outer loop over the
  x-offset, inner loop over the z-offset, each from \<open>- radius\<close> to \<open>radius - 1\<close>), the
  coordinates they give around a centre, and the offsets still to come from a position
  inside the loops; the condition that the products and sums for the first and the last
  offset of a ring around a centre are values of \<^verbatim>\<open>int32_t\<close>, so that those for every
  offset are; the chunk and the event of an upload; the build events of a trace;
  and the steps of the worker for one pass, the guard of the \<^verbatim>\<open>while\<close> loop and one
  call for each offset.
\<close>

definition chunk_coord :: "chunk_t \<Rightarrow> int \<times> int" where
  "chunk_coord c = (chunk_t_x c, chunk_t_z c)"

definition request_event :: "chunk_t list \<Rightarrow> int \<times> int \<Rightarrow> event" where
  "request_event cs c =
     (if chunk_present (fst c) (snd c) cs then Duplicate (fst c) (snd c) else Build (fst c) (snd c))"

definition request :: "config \<Rightarrow> int \<times> int \<Rightarrow> World \<Rightarrow> World" where
  "request cfg c w =
     (if chunk_present (fst c) (snd c) (chunks w) then w\<lparr>trace := trace w @ [Duplicate (fst c) (snd c)]\<rparr>
      else w\<lparr>chunkMeshGenerationQueue := chunkMeshGenerationQueue w @ [built_chunk cfg (fst c) (snd c)],
             trace := trace w @ [Build (fst c) (snd c)]\<rparr>)"

definition ring_offsets :: "int \<Rightarrow> (int \<times> int) list" where
  "ring_offsets r = concat (map (\<lambda>x. map (\<lambda>z. (x, z)) [- r..r - 1]) [- r..r - 1])"

definition coord_at :: "config \<Rightarrow> int \<Rightarrow> int \<Rightarrow> int \<times> int \<Rightarrow> int \<times> int" where
  "coord_at cfg px pz c = (px + fst c * CHUNK_SIZE cfg, pz + snd c * CHUNK_SIZE cfg)"

definition ring_coords :: "config \<Rightarrow> int \<Rightarrow> int \<Rightarrow> (int \<times> int) list" where
  "ring_coords cfg px pz = map (coord_at cfg px pz) (ring_offsets (chunk_generation_radius cfg))"

definition rest_offsets :: "int \<Rightarrow> int \<Rightarrow> int \<Rightarrow> (int \<times> int) list" where
  "rest_offsets r x z =
     map (\<lambda>z'. (x, z')) [z..r - 1] @
     concat (map (\<lambda>x'. map (\<lambda>z'. (x', z')) [- r..r - 1]) [x + 1..r - 1])"

definition ring_fits :: "config \<Rightarrow> int \<Rightarrow> int \<Rightarrow> bool" where
  "ring_fits cfg px pz \<longleftrightarrow>
     (let r = chunk_generation_radius cfg; n = CHUNK_SIZE cfg in
      int32_range (- r * n) \<and> int32_range ((r - 1) * n) \<and>
      int32_range (px - r * n) \<and> int32_range (px + (r - 1) * n) \<and>
      int32_range (pz - r * n) \<and> int32_range (pz + (r - 1) * n))"

definition uploaded :: "immature_chunk_data_t \<Rightarrow> chunk_t" where
  "uploaded d =
     (chunk d)\<lparr>mesh := Some \<lparr>vbo_vertices = take (nat (vertices_count (mesh_data d))) (vertices (mesh_data d)),
                             vbo_indices = take (nat (indices_count (mesh_data d))) (indices (mesh_data d))\<rparr>\<rparr>"

definition upload_event :: "immature_chunk_data_t \<Rightarrow> event" where
  "upload_event d = Upload (chunk_t_x (chunk d)) (chunk_t_z (chunk d))"

definition build_events :: "event list \<Rightarrow> event list" where
  "build_events tr = filter (\<lambda>e. case e of Build x z \<Rightarrow> True | _ \<Rightarrow> False) tr"

definition one_pass :: "config \<Rightarrow> action list" where
  "one_pass cfg =
     replicate (Suc (nat (2 * chunk_generation_radius cfg) * nat (2 * chunk_generation_radius cfg)))
       WorkerStep"

section \<open>Configurations and scenarios\<close>

text \<open>
  \<open>demo_config\<close> has the literals of \<^verbatim>\<open>world_generation_fn\<close> (radius 10, ceilings 1000
  and 100), the chunk size 16, and the single octave (50, 1) and maximum height 10 of
  the height scenario of the specification; the biome table, the delta and the noise,
  which is constantly 0, stand in for the values of \<^verbatim>\<open>World.h\<close> and \<^verbatim>\<open>SimplexNoise\<close>.
  \<open>half_config\<close> and \<open>peak_config\<close> differ in the noise only: constantly one half, and 1
  at the origin. \<open>slope_config\<close> has a noise that is one half where the first coordinate
  is negative and 0 elsewhere, one biome band, the octave (1, 1), maximum height 8 and
  delta 2, which gives a terrain with a step. \<open>scenario_config\<close> is the scenario with radius 1 and ceiling 9.
  \<open>origin_World\<close> is a new World whose generation was started with an observation point
  at the origin, \<open>cluttered_World\<close> a World that holds a drawable and a world object.
\<close>

definition demo_config :: config where
  "demo_config =
     \<lparr>CHUNK_SIZE = 16, CHUNK_BIOME_COUNT = 4,
      BIOME_HEIGHT_SCALING_FACTORS = [1, 2, 3, 4],
      CHUNK_GENERATION_OCTAVES = [(50, 1)],
      CHUNK_GENERATION_MAX_HEIGHT = 10,
      CHUNK_GENERATION_NORMAL_DELTA = 1 / 10,
      noise = (\<lambda>x z. 0),
      chunk_generation_radius = 10, chunk_ceiling = 1000, object_ceiling = 100\<rparr>"

definition half_config :: config where
  "half_config = demo_config\<lparr>noise := (\<lambda>x z. 1 / 2)\<rparr>"

definition slope_config :: config where
  "slope_config =
     \<lparr>CHUNK_SIZE = 16, CHUNK_BIOME_COUNT = 1,
      BIOME_HEIGHT_SCALING_FACTORS = [1],
      CHUNK_GENERATION_OCTAVES = [(1, 1)],
      CHUNK_GENERATION_MAX_HEIGHT = 8,
      CHUNK_GENERATION_NORMAL_DELTA = 2,
      noise = (\<lambda>x z. if x < 0 then 1 / 2 else 0),
      chunk_generation_radius = 10, chunk_ceiling = 1000, object_ceiling = 100\<rparr>"

definition peak_config :: config where
  "peak_config = demo_config\<lparr>noise := (\<lambda>x z. if x = 0 \<and> z = 0 then 1 else 0)\<rparr>"


definition origin_World :: World where
  "origin_World = startWorldGeneration (Some (0, 0, 0)) new_World"

definition cluttered_World :: World where
  "cluttered_World = new_World\<lparr>drawables := [1], worldObjects := [2]\<rparr>"





section \<open>Properties of the height field\<close>

lemma float_to_int_nonneg: "0 \<le> r \<Longrightarrow> float_to_int r = \<lfloor>r\<rfloor>"
  by (simp add: float_to_int_def)

lemma biome_index_in_range:
  assumes c: "0 < CHUNK_BIOME_COUNT cfg" and b: "0 \<le> b" "b < 1"
  shows "0 \<le> biome_index cfg b \<and> biome_index cfg b < CHUNK_BIOME_COUNT cfg"
proof -
  let ?c = "real_of_int (CHUNK_BIOME_COUNT cfg)"
  have pos: "0 \<le> b * ?c" using c b by simp
  have "b * ?c < 1 * ?c" using c b by (intro mult_strict_right_mono) simp_all
  then have lt: "b * ?c < ?c" by simp
  have "\<lfloor>b * ?c\<rfloor> < CHUNK_BIOME_COUNT cfg" using lt by (simp add: floor_less_iff)
  moreover have "0 \<le> \<lfloor>b * ?c\<rfloor>" using pos by simp
  ultimately show ?thesis by (simp add: biome_index_def float_to_int_nonneg [OF pos])
qed

lemma biome_index_at_one: "0 \<le> CHUNK_BIOME_COUNT cfg \<Longrightarrow> biome_index cfg 1 = CHUNK_BIOME_COUNT cfg"
  by (simp add: biome_index_def float_to_int_def)

lemma getChunkHeight_None_iff:
  "getChunkHeight cfg x z = None \<longleftrightarrow>
   array_read (BIOME_HEIGHT_SCALING_FACTORS cfg)
     (biome_index cfg (getBiomeNoise cfg (x / 10) (z / 10))) = None"
  by (simp add: getChunkHeight_def Let_def split: option.splits)

lemma heights_defined_noise:
  assumes c: "0 < CHUNK_BIOME_COUNT cfg"
    and len: "length (BIOME_HEIGHT_SCALING_FACTORS cfg) = nat (CHUNK_BIOME_COUNT cfg)"
    and rng: "\<And>a b. - 1 \<le> noise cfg a b \<and> noise cfg a b < 1"
  shows "heights_defined cfg"
proof -
  have "getChunkHeight cfg x z \<noteq> None" for x z
  proof -
    let ?b = "getBiomeNoise cfg (x / 10) (z / 10)"
    have "0 \<le> ?b \<and> ?b < 1" using rng [of "x / 10 / 100" "z / 10 / 100"]
      by (simp add: getBiomeNoise_def)
    then have "0 \<le> biome_index cfg ?b \<and> biome_index cfg ?b < CHUNK_BIOME_COUNT cfg"
      using biome_index_in_range [OF c] by blast
    then show ?thesis using len c
      by (simp add: getChunkHeight_None_iff array_read_def)
  qed
  then show ?thesis by (simp add: heights_defined_def)
qed

lemma heights_defined_demo: "heights_defined demo_config"
  by (rule heights_defined_noise) (simp_all add: demo_config_def)

lemma octave_loop_sum:
  "octave_loop cfg x z os acc =
   acc + (\<Sum>octave\<leftarrow>os. noise cfg (x / fst octave) (z / fst octave) * snd octave)"
  by (induction os arbitrary: acc) simp_all

text \<open>
  Claim C10. The biome table is read at \<^verbatim>\<open>(int) (biome_noise * CHUNK_BIOME_COUNT)\<close>.
  For a positive count and raw noise between -1 and 1 the biome noise lies between 0
  and 1; where it is below 1 the index lies in the range from 0 up to, not including,
  the count; where it is exactly 1 the index is the count itself. With a table of as
  many entries as the count, the read of \<^verbatim>\<open>getChunkHeight\<close> is outside the table exactly
  where the biome noise is 1.
\<close>

theorem biome_index_bounds:
  assumes "0 < CHUNK_BIOME_COUNT cfg"
    and "- 1 \<le> noise cfg (x / 10 / 100) (z / 10 / 100)"
    and "noise cfg (x / 10 / 100) (z / 10 / 100) \<le> 1"
  shows "0 \<le> getBiomeNoise cfg (x / 10) (z / 10) \<and> getBiomeNoise cfg (x / 10) (z / 10) \<le> 1 \<and>
     (getBiomeNoise cfg (x / 10) (z / 10) < 1 \<longrightarrow>
        0 \<le> biome_index cfg (getBiomeNoise cfg (x / 10) (z / 10)) \<and>
        biome_index cfg (getBiomeNoise cfg (x / 10) (z / 10)) < CHUNK_BIOME_COUNT cfg) \<and>
     (getBiomeNoise cfg (x / 10) (z / 10) = 1 \<longrightarrow>
        biome_index cfg (getBiomeNoise cfg (x / 10) (z / 10)) = CHUNK_BIOME_COUNT cfg) \<and>
     (length (BIOME_HEIGHT_SCALING_FACTORS cfg) = nat (CHUNK_BIOME_COUNT cfg) \<longrightarrow>
        (getChunkHeight cfg x z = None \<longleftrightarrow> getBiomeNoise cfg (x / 10) (z / 10) = 1))"
proof -
  let ?b = "getBiomeNoise cfg (x / 10) (z / 10)"
  have b: "0 \<le> ?b" "?b \<le> 1" using assms(2,3) by (simp_all add: getBiomeNoise_def)
  have lt: "?b < 1 \<Longrightarrow> 0 \<le> biome_index cfg ?b \<and> biome_index cfg ?b < CHUNK_BIOME_COUNT cfg"
    using biome_index_in_range [OF assms(1) b(1)] by simp
  have eq: "?b = 1 \<Longrightarrow> biome_index cfg ?b = CHUNK_BIOME_COUNT cfg"
    using assms(1) by (simp add: biome_index_at_one)
  have acc: "getChunkHeight cfg x z = None \<longleftrightarrow> ?b = 1"
    if len: "length (BIOME_HEIGHT_SCALING_FACTORS cfg) = nat (CHUNK_BIOME_COUNT cfg)"
  proof (cases "?b = 1")
    case True
    then show ?thesis using eq len assms(1)
      by (simp add: getChunkHeight_None_iff array_read_def)
  next
    case False
    then have "?b < 1" using b(2) by simp
    then show ?thesis using lt len assms(1) False
      by (simp add: getChunkHeight_None_iff array_read_def)
  qed
  show ?thesis using b lt eq acc by blast
qed

text \<open>
  Claim C10 at concrete inputs. The noise of \<open>peak_config\<close> is 1 at the origin and 0 elsewhere: at the origin the index
  is the count 4 and the read is outside the table, at (1000, 0) the index is inside.
\<close>

theorem biome_index_bounds_witness:
  "biome_index peak_config (getBiomeNoise peak_config (0 / 10) (0 / 10)) = 4 \<and>
   getChunkHeight peak_config 0 0 = None \<and>
   getBiomeNoise peak_config (1000 / 10) (0 / 10) < 1 \<and>
   biome_index peak_config (getBiomeNoise peak_config (1000 / 10) (0 / 10)) < 4 \<and>
   getChunkHeight peak_config 1000 0 \<noteq> None"
  using biome_index_bounds [of peak_config 0 0] biome_index_bounds [of peak_config 1000 0]
  by (simp add: peak_config_def demo_config_def getBiomeNoise_def)

text \<open>
  Claim C5, as stated, fails: with noise constantly one half the biome noise is 3/4,
  the band is the fourth with constant 4, the octave sum is 1/2 and the maximum height
  is 10. The stated product is 20; \<^verbatim>\<open>getChunkHeight\<close> returns 15, because line 102
  multiplies the scaling constant by the biome noise as well.
\<close>

theorem getChunkHeight_claimed_counterexample:
  "getChunkHeight half_config 0 0 = Some 15 \<and> height_claimed half_config 0 0 = Some 20"
  by (simp add: getChunkHeight_def height_claimed_def octave_sum_def half_config_def
      demo_config_def getBiomeNoise_def biome_index_def float_to_int_def array_read_def Let_def)

text \<open>
  Claim C5, amended. For every sample point, with both coordinates divided by 10 first,
  the height is the sum over the octave table of the noise at the coordinates divided by
  the wavelength times the amplitude, times the scaling constant of the band that the
  biome noise selects, times the biome noise itself, times the maximum height; it is
  undefined where the band index is outside the table.
\<close>

theorem getChunkHeight_formula:
  "getChunkHeight cfg x z =
     (case array_read (BIOME_HEIGHT_SCALING_FACTORS cfg)
             (biome_index cfg (getBiomeNoise cfg (x / 10) (z / 10))) of
        None \<Rightarrow> None
      | Some band \<Rightarrow>
          Some (octave_sum cfg (x / 10) (z / 10) * band * getBiomeNoise cfg (x / 10) (z / 10) *
                CHUNK_GENERATION_MAX_HEIGHT cfg))"
  by (simp add: getChunkHeight_def Let_def octave_loop_sum octave_sum_def split: option.splits)

text \<open>
  Claim C5, amended, at a concrete input: at the origin with noise constantly one half
  the height is 1/2 * 4 * 3/4 * 10 = 15.
\<close>

theorem getChunkHeight_formula_witness:
  "getChunkHeight half_config 0 0 = Some 15"
  using getChunkHeight_formula [of half_config 0 0]
  by (simp add: octave_sum_def half_config_def demo_config_def getBiomeNoise_def biome_index_def
      float_to_int_def array_read_def)

lemma normalize_vec3_unit:
  assumes "b \<noteq> 0"
  shows "dot (normalize_vec3 (a, b, c)) (normalize_vec3 (a, b, c)) = 1"
proof -
  let ?q = "a * a + b * b + c * c"
  have "0 < b * b" using assms by (auto simp: zero_less_mult_iff)
  moreover have "0 \<le> a * a" "0 \<le> c * c" by simp_all
  ultimately have q: "0 < ?q" by linarith
  define s where "s = 1 / sqrt ?q"
  have ss: "s * s = 1 / ?q" using q by (simp add: s_def)
  have n: "normalize_vec3 (a, b, c) = (a * s, b * s, c * s)"
    by (simp add: normalize_vec3_def dot_def s_def Let_def)
  have "dot (normalize_vec3 (a, b, c)) (normalize_vec3 (a, b, c)) = ?q * (s * s)"
    unfolding n by (simp add: dot_def algebra_simps)
  also have "\<dots> = 1" unfolding ss using q by simp
  finally show ?thesis .
qed

text \<open>
  Claim C6. Where the four neighbouring heights are defined and the delta d is not 0,
  the normal at (x, z) is the normalisation of the vector
  v = (h(x - d, z) - h(x + d, z), 2 d, h(x, z - d) - h(x, z + d)): it is v multiplied by
  the positive number k that is one over the square root of the sum of the squares of
  the components of v, and it is a unit vector, its dot product with itself being 1.
\<close>

theorem getNormalVector_unit:
  assumes "CHUNK_GENERATION_NORMAL_DELTA cfg \<noteq> 0"
    and "getChunkHeight cfg (x - CHUNK_GENERATION_NORMAL_DELTA cfg) z = Some h1"
    and "getChunkHeight cfg (x + CHUNK_GENERATION_NORMAL_DELTA cfg) z = Some h2"
    and "getChunkHeight cfg x (z - CHUNK_GENERATION_NORMAL_DELTA cfg) = Some h3"
    and "getChunkHeight cfg x (z + CHUNK_GENERATION_NORMAL_DELTA cfg) = Some h4"
  shows "\<exists>n k. getNormalVector cfg x z = Some n \<and>
           k = 1 / sqrt ((h1 - h2)\<^sup>2 + (2 * CHUNK_GENERATION_NORMAL_DELTA cfg)\<^sup>2 + (h3 - h4)\<^sup>2) \<and>
           0 < k \<and>
           n = (k * (h1 - h2), k * (2 * CHUNK_GENERATION_NORMAL_DELTA cfg), k * (h3 - h4)) \<and>
           dot n n = 1"
proof -
  let ?a = "h1 - h2" and ?b = "2 * CHUNK_GENERATION_NORMAL_DELTA cfg" and ?c = "h3 - h4"
  let ?q = "?a\<^sup>2 + ?b\<^sup>2 + ?c\<^sup>2"
  define k where "k = 1 / sqrt ?q"
  have b: "?b \<noteq> 0" using assms(1) by simp
  then have "0 < ?b\<^sup>2" by simp
  moreover have "0 \<le> ?a\<^sup>2" "0 \<le> ?c\<^sup>2" by simp_all
  ultimately have q: "0 < ?q" by linarith
  then have k: "0 < k" by (simp add: k_def)
  have dq: "dot (?a, ?b, ?c) (?a, ?b, ?c) = ?q" by (simp add: dot_def power2_eq_square)
  have n: "normalize_vec3 (?a, ?b, ?c) = (k * ?a, k * ?b, k * ?c)"
    unfolding normalize_vec3_def dq by (simp add: k_def Let_def)
  have g: "getNormalVector cfg x z = Some (k * ?a, k * ?b, k * ?c)"
    using assms(2-5) by (simp only: getNormalVector_def Let_def option.case n)
  have u: "dot (k * ?a, k * ?b, k * ?c) (k * ?a, k * ?b, k * ?c) = 1"
    using normalize_vec3_unit [OF b, of ?a ?c] by (simp only: n)
  show ?thesis using g k u k_def by blast
qed

text \<open>
  Claim C6 at a concrete input: for \<open>slope_config\<close> the heights around (0, 0) are 3 at
  (-2, 0) and 0 at (2, 0), (0, -2) and (0, 2), the difference vector is (3, 4, 0), and
  the normal at (0, 0) is (3/5, 4/5, 0), a unit vector.
\<close>

theorem getNormalVector_unit_witness:
  "getNormalVector slope_config 0 0 = Some (3 / 5, 4 / 5, 0) \<and>
   dot (3 / 5, 4 / 5, 0) (3 / 5, 4 / 5, 0) = 1"
proof -
  have h1: "getChunkHeight slope_config (0 - CHUNK_GENERATION_NORMAL_DELTA slope_config) 0 = Some 3"
    and h2: "getChunkHeight slope_config (0 + CHUNK_GENERATION_NORMAL_DELTA slope_config) 0 = Some 0"
    and h3: "getChunkHeight slope_config 0 (0 - CHUNK_GENERATION_NORMAL_DELTA slope_config) = Some 0"
    and h4: "getChunkHeight slope_config 0 (0 + CHUNK_GENERATION_NORMAL_DELTA slope_config) = Some 0"
    by (simp_all add: getChunkHeight_def slope_config_def getBiomeNoise_def biome_index_def
        float_to_int_def array_read_def Let_def)
  have d: "CHUNK_GENERATION_NORMAL_DELTA slope_config \<noteq> 0" by (simp add: slope_config_def)
  have s: "sqrt (25::real) = 5" using real_sqrt_abs [of 5] by simp
  obtain n k where nk: "getNormalVector slope_config 0 0 = Some n"
    "k = 1 / sqrt ((3 - 0)\<^sup>2 + (2 * CHUNK_GENERATION_NORMAL_DELTA slope_config)\<^sup>2 + (0 - 0)\<^sup>2)"
    "n = (k * (3 - 0), k * (2 * CHUNK_GENERATION_NORMAL_DELTA slope_config), k * (0 - 0))"
    "dot n n = 1"
    using getNormalVector_unit [OF d h1 h2 h3 h4] by blast
  have k: "k = 1 / 5" using nk(2) by (simp add: slope_config_def s)
  have n: "n = (3 / 5, 4 / 5, 0)" using nk(3) by (simp add: k slope_config_def)
  show ?thesis using nk(1,4) by (simp add: n)
qed

lemma sdiv_nonneg: "0 \<le> k \<Longrightarrow> 0 < n \<Longrightarrow> (k::int) sdiv n = k div n"
  by (simp add: signed_divide_int_def sgn_if)

lemma sdiv_negative: "k < 0 \<Longrightarrow> 0 < n \<Longrightarrow> (k::int) sdiv n = - ((- k) div n)"
  by (simp add: signed_divide_int_def sgn_if)

lemma align_nonneg:
  assumes "0 \<le> k" "0 < n" shows "(k sdiv n) * n \<le> k \<and> k < (k sdiv n) * n + (n::int)"
proof -
  have "(k div n) * n + k mod n = k" by (rule div_mult_mod_eq)
  moreover have "0 \<le> k mod n" "k mod n < n" using assms by simp_all
  ultimately have "(k div n) * n \<le> k \<and> k < (k div n) * n + n" by linarith
  then show ?thesis using assms by (simp add: sdiv_nonneg)
qed

lemma align_negative:
  assumes "k < 0" "0 < n" shows "k \<le> (k sdiv n) * n \<and> (k sdiv n) * n - (n::int) < k"
proof -
  have "((- k) div n) * n + (- k) mod n = - k" by (rule div_mult_mod_eq)
  moreover have "0 \<le> (- k) mod n" "(- k) mod n < n" using assms by simp_all
  ultimately have "k \<le> - (((- k) div n) * n) \<and> - (((- k) div n) * n) - n < k" by linarith
  then show ?thesis using assms by (simp add: sdiv_negative)
qed

text \<open>
  Claim C7, as stated, fails at a negative position: for the position -1 and chunk
  size 16 the code yields 0, which exceeds the position, while the greatest multiple of
  16 that does not exceed -1 is -16.
\<close>

theorem chunk_align_floor_counterexample:
  "chunk_align demo_config (- 1) = Some 0 \<and> floor_align demo_config (- 1) = - 16"
  by (simp add: chunk_align_def floor_align_def demo_config_def float_to_int32_def
      float_to_int_def signed_divide_int_def ceiling_minus)

text \<open>
  Claim C7, amended. For a positive chunk size and a position whose integer part fits
  \<^verbatim>\<open>int32_t\<close>, the centre on an axis is the integer part of the position, divided by
  the chunk size with the truncating division of C++ and multiplied by it again. It is
  a multiple of the chunk size. For a position that is not negative it is the greatest
  multiple that does not exceed the position; for a negative position it is the least
  multiple that is not below the position (rounding towards zero, not flooring).
\<close>

theorem chunk_align_truncates:
  assumes cs: "0 < CHUNK_SIZE cfg" and k: "float_to_int32 p = Some k"
  shows "\<exists>c. chunk_align cfg p = Some c \<and> c = (k sdiv CHUNK_SIZE cfg) * CHUNK_SIZE cfg \<and>
           CHUNK_SIZE cfg dvd c \<and>
           (0 \<le> p \<longrightarrow> of_int c \<le> p \<and> p < of_int (c + CHUNK_SIZE cfg) \<and> c = floor_align cfg p) \<and>
           (p < 0 \<longrightarrow> of_int (c - CHUNK_SIZE cfg) < p \<and> p \<le> of_int c)"
proof -
  let ?n = "CHUNK_SIZE cfg"
  let ?c = "(k sdiv ?n) * ?n"
  have kk: "k = float_to_int p" using k by (simp add: float_to_int32_def Let_def split: if_splits)
  have a: "chunk_align cfg p = Some ?c" using cs by (simp add: chunk_align_def k)
  have pos: "of_int ?c \<le> p \<and> p < of_int (?c + ?n) \<and> ?c = floor_align cfg p" if p: "0 \<le> p"
  proof -
    have k0: "0 \<le> k" and kf: "k = \<lfloor>p\<rfloor>" using p kk by (simp_all add: float_to_int_def)
    have b: "?c \<le> k \<and> k < ?c + ?n" using align_nonneg [OF k0 cs] by simp
    have "of_int k \<le> p" "p < of_int k + 1" using floor_correct [of p] by (simp_all add: kf)
    then have c1: "of_int ?c \<le> p" and c2: "p < of_int (?c + ?n)"
      using b by linarith+
    have "\<lfloor>p / of_int ?n\<rfloor> = k div ?n" using kf cs
      by (simp add: floor_divide_real_eq_div)
    then have "?c = floor_align cfg p" using k0 cs by (simp add: floor_align_def sdiv_nonneg)
    then show ?thesis using c1 c2 by blast
  qed
  have neg: "of_int (?c - ?n) < p \<and> p \<le> of_int ?c" if p: "p < 0"
  proof -
    have kc: "k = \<lceil>p\<rceil>" using p kk by (simp add: float_to_int_def)
    then have k0: "k \<le> 0" using p by (simp add: ceiling_le_iff)
    have kp: "p \<le> of_int k" "of_int k - 1 < p" using ceiling_correct [of p] by (simp_all add: kc)
    show ?thesis
    proof (cases "k = 0")
      case True
      then show ?thesis using kp p cs by simp
    next
      case False
      then have "k < 0" using k0 by simp
      then have "k \<le> ?c \<and> ?c - ?n < k" using align_negative [OF _ cs] by simp
      then show ?thesis using kp by linarith
    qed
  qed
  have "CHUNK_SIZE cfg dvd ?c" by simp
  then show ?thesis using a pos neg by blast
qed

text \<open>
  Claim C7, amended, at concrete inputs: the positions 17.5 and -17.5 with chunk size 16
  are aligned to 16 and to -16.
\<close>

theorem chunk_align_truncates_witness:
  "chunk_align demo_config (35 / 2) = Some 16 \<and> chunk_align demo_config (- 35 / 2) = Some (- 16)"
proof -
  have a: "float_to_int32 (35 / 2) = Some 17" and b: "float_to_int32 (- 35 / 2) = Some (- 17)"
    by (simp_all add: float_to_int32_def float_to_int_def)
  have c: "0 < CHUNK_SIZE demo_config" by (simp add: demo_config_def)
  show ?thesis
    using chunk_align_truncates [OF c a] chunk_align_truncates [OF c b]
    by (simp add: demo_config_def signed_divide_int_def)
qed

section \<open>Properties of the chunk builder\<close>

declare generate_columns.simps [simp del] generate_rows.simps [simp del]

lemma array_write_filled:
  "length ys < n \<Longrightarrow> array_write (filled n ys) (int (length ys)) v = Some (filled n (ys @ [Some v]))"
proof -
  assume a: "length ys < n"
  then obtain k where k: "n - length ys = Suc k" by (cases "n - length ys") auto
  then have k': "n - Suc (length ys) = k" by simp
  show ?thesis
    by (simp add: array_write_def filled_def a k k' list_update_append)
qed

lemma push_index_bstate:
  "length is < n2 \<Longrightarrow>
   push_index v (bstate n1 n2 n3 hs is vs) = Some (bstate n1 n2 n3 hs (is @ [Some v]) vs)"
  by (simp add: push_index_def bstate_def array_write_filled)

lemma push_vertex_bstate:
  "length vs < n3 \<Longrightarrow>
   push_vertex v (bstate n1 n2 n3 hs is vs) = Some (bstate n1 n2 n3 hs is (vs @ [Some v]))"
  by (simp add: push_vertex_def bstate_def array_write_filled)

lemma store_height_bstate:
  "k = int (length hs) \<Longrightarrow> length hs < n1 \<Longrightarrow>
   store_height k cy (bstate n1 n2 n3 hs is vs) = Some (bstate n1 n2 n3 (hs @ [Some cy]) is vs)"
  by (simp add: store_height_def bstate_def array_write_filled)

lemma heights_defined_normal:
  "heights_defined cfg \<Longrightarrow> \<exists>n. getNormalVector cfg a b = Some n"
proof -
  assume hd: "heights_defined cfg"
  let ?d = "CHUNK_GENERATION_NORMAL_DELTA cfg"
  obtain h1 where h1: "getChunkHeight cfg (a - ?d) b = Some h1"
    using hd by (auto simp: heights_defined_def)
  obtain h2 where h2: "getChunkHeight cfg (a + ?d) b = Some h2"
    using hd by (auto simp: heights_defined_def)
  obtain h3 where h3: "getChunkHeight cfg a (b - ?d) = Some h3"
    using hd by (auto simp: heights_defined_def)
  obtain h4 where h4: "getChunkHeight cfg a (b + ?d) = Some h4"
    using hd by (auto simp: heights_defined_def)
  have "getNormalVector cfg a b = Some (normalize_vec3 (h1 - h2, 2 * ?d, h3 - h4))"
    by (simp add: getNormalVector_def Let_def h1 h2 h3 h4)
  then show ?thesis by blast
qed


lemma generate_point_core:
  assumes hd: "heights_defined cfg"
    and core: "i < CHUNK_SIZE cfg" "j < CHUNK_SIZE cfg"
    and len: "int (length hs) = i * CHUNK_SIZE cfg + j" "length hs < n1"
    and ci: "length is + 6 \<le> n2" and cv: "length vs < n3"
  shows "generate_point cfg x z i j (bstate n1 n2 n3 hs is vs) =
         Some (bstate n1 n2 n3 (hs @ [point_height cfg x z i j])
                 (is @ map Some (cell_indices cfg i j)) (vs @ [point_vertex cfg x z i j]))"
proof -
  obtain cy where cy: "getChunkHeight cfg (of_int x + of_int i - 1 / 2) (of_int z + of_int j - 1 / 2) = Some cy"
    using hd by (auto simp: heights_defined_def)
  obtain n where n: "getNormalVector cfg (of_int x + of_int i - 1 / 2) (of_int z + of_int j - 1 / 2) = Some n"
    using heights_defined_normal [OF hd] by blast
  show ?thesis
    using core len ci cv
    by (simp add: generate_point_def point_height_def point_vertex_def Let_def cy n
        push_vertex_bstate store_height_bstate push_index_bstate cell_indices_def)
qed

lemma generate_point_border:
  assumes hd: "heights_defined cfg"
    and border: "\<not> (i < CHUNK_SIZE cfg \<and> j < CHUNK_SIZE cfg)"
    and cv: "length vs < n3"
  shows "generate_point cfg x z i j (bstate n1 n2 n3 hs is vs) =
         Some (bstate n1 n2 n3 hs is (vs @ [point_vertex cfg x z i j]))"
proof -
  obtain cy where cy: "getChunkHeight cfg (of_int x + of_int i - 1 / 2) (of_int z + of_int j - 1 / 2) = Some cy"
    using hd by (auto simp: heights_defined_def)
  obtain n where n: "getNormalVector cfg (of_int x + of_int i - 1 / 2) (of_int z + of_int j - 1 / 2) = Some n"
    using heights_defined_normal [OF hd] by blast
  show ?thesis
    using border cv
    by (auto simp: generate_point_def point_vertex_def Let_def cy n push_vertex_bstate)
qed

lemma length_cell_indices: "length (cell_indices cfg i j) = 6"
  by (simp add: cell_indices_def Let_def)

lemma row_heights_step:
  "i < CHUNK_SIZE cfg \<Longrightarrow> j < CHUNK_SIZE cfg \<Longrightarrow>
   row_heights cfg x z i j = point_height cfg x z i j # row_heights cfg x z i (j + 1)"
  by (simp add: row_heights_def upto_rec1 [of j])

lemma row_indices_step:
  "i < CHUNK_SIZE cfg \<Longrightarrow> j < CHUNK_SIZE cfg \<Longrightarrow>
   row_indices cfg i j = map Some (cell_indices cfg i j) @ row_indices cfg i (j + 1)"
  by (simp add: row_indices_def upto_rec1 [of j])

lemma row_heights_done: "\<not> (i < CHUNK_SIZE cfg \<and> j < CHUNK_SIZE cfg) \<Longrightarrow> row_heights cfg x z i j = []"
  by (auto simp: row_heights_def)

lemma row_indices_done: "\<not> (i < CHUNK_SIZE cfg \<and> j < CHUNK_SIZE cfg) \<Longrightarrow> row_indices cfg i j = []"
  by (auto simp: row_indices_def)

lemma row_vertices_step:
  "j \<le> CHUNK_SIZE cfg \<Longrightarrow>
   row_vertices cfg x z i j = point_vertex cfg x z i j # row_vertices cfg x z i (j + 1)"
  by (simp add: row_vertices_def upto_rec1 [of j])

lemma row_vertices_done: "\<not> j \<le> CHUNK_SIZE cfg \<Longrightarrow> row_vertices cfg x z i j = []"
  by (simp add: row_vertices_def)

lemma length_row_heights:
  "0 \<le> j \<Longrightarrow> j \<le> CHUNK_SIZE cfg \<Longrightarrow> i < CHUNK_SIZE cfg \<Longrightarrow>
   int (length (row_heights cfg x z i j)) = CHUNK_SIZE cfg - j"
  by (simp add: row_heights_def)

lemma length_concat_const:
  "(\<And>x. x \<in> set xs \<Longrightarrow> length (f x) = k) \<Longrightarrow> length (concat (map f xs)) = k * length xs"
  by (induction xs) auto

lemma length_row_indices:
  "0 \<le> j \<Longrightarrow> j \<le> CHUNK_SIZE cfg \<Longrightarrow> i < CHUNK_SIZE cfg \<Longrightarrow>
   int (length (row_indices cfg i j)) = 6 * (CHUNK_SIZE cfg - j)"
proof -
  assume a: "0 \<le> j" "j \<le> CHUNK_SIZE cfg" "i < CHUNK_SIZE cfg"
  have "length (row_indices cfg i j) = 6 * length [j..CHUNK_SIZE cfg - 1]"
    using a by (simp add: row_indices_def length_concat_const length_cell_indices)
  then show ?thesis using a by simp
qed

lemma length_row_vertices:
  "0 \<le> j \<Longrightarrow> j \<le> CHUNK_SIZE cfg + 1 \<Longrightarrow>
   int (length (row_vertices cfg x z i j)) = CHUNK_SIZE cfg + 1 - j"
  by (simp add: row_vertices_def)

text \<open>
  The inner loop from column \<open>j\<close> on: with room left in the arrays and the heights of
  the earlier core cells in place, it runs to its end without a fault and adds the
  rest of the row.
\<close>

lemma generate_columns_bstate:
  assumes hd: "heights_defined cfg"
  shows "0 \<le> j \<Longrightarrow>
     int (length vs) + (CHUNK_SIZE cfg + 1 - j) \<le> int n3 \<Longrightarrow>
     (i < CHUNK_SIZE cfg \<and> j < CHUNK_SIZE cfg \<longrightarrow>
        int (length hs) = i * CHUNK_SIZE cfg + j \<and>
        i * CHUNK_SIZE cfg + CHUNK_SIZE cfg \<le> int n1 \<and>
        int (length is) + 6 * (CHUNK_SIZE cfg - j) \<le> int n2) \<Longrightarrow>
     generate_columns cfg x z i j (bstate n1 n2 n3 hs is vs) =
       Some (bstate n1 n2 n3 (hs @ row_heights cfg x z i j) (is @ row_indices cfg i j)
               (vs @ row_vertices cfg x z i j))"
proof (induction "nat (CHUNK_SIZE cfg + 1 - j)" arbitrary: j hs "is" vs)
  case 0
  then have "\<not> j \<le> CHUNK_SIZE cfg" by simp
  then show ?case
    by (subst generate_columns.simps)
       (simp add: row_heights_done row_indices_done row_vertices_done)
next
  case (Suc k)
  then have j: "j \<le> CHUNK_SIZE cfg" by simp
  have k: "k = nat (CHUNK_SIZE cfg + 1 - (j + 1))" using Suc.hyps(2) by simp
  have cv: "length vs < n3" using Suc.prems(2) j by simp
  show ?case
  proof (cases "i < CHUNK_SIZE cfg \<and> j < CHUNK_SIZE cfg")
    case True
    then have len: "int (length hs) = i * CHUNK_SIZE cfg + j"
      and c1: "i * CHUNK_SIZE cfg + CHUNK_SIZE cfg \<le> int n1"
      and c2: "int (length is) + 6 * (CHUNK_SIZE cfg - j) \<le> int n2"
      using Suc.prems(3) by simp_all
    have l1: "length hs < n1" using len c1 True by simp
    have l2: "length is + 6 \<le> n2" using c2 True by simp
    have pt: "generate_point cfg x z i j (bstate n1 n2 n3 hs is vs) =
         Some (bstate n1 n2 n3 (hs @ [point_height cfg x z i j])
                 (is @ map Some (cell_indices cfg i j)) (vs @ [point_vertex cfg x z i j]))"
      using generate_point_core [OF hd _ _ len l1 l2 cv] True by simp
    have ih: "generate_columns cfg x z i (j + 1)
            (bstate n1 n2 n3 (hs @ [point_height cfg x z i j])
                 (is @ map Some (cell_indices cfg i j)) (vs @ [point_vertex cfg x z i j])) =
          Some (bstate n1 n2 n3 ((hs @ [point_height cfg x z i j]) @ row_heights cfg x z i (j + 1))
                 ((is @ map Some (cell_indices cfg i j)) @ row_indices cfg i (j + 1))
                 ((vs @ [point_vertex cfg x z i j]) @ row_vertices cfg x z i (j + 1)))"
      using Suc.prems(1,2) len c1 c2
      by (intro Suc.hyps(1) [OF k]) (simp_all add: length_cell_indices)
    show ?thesis
      using True j
      by (subst generate_columns.simps)
         (simp add: pt ih row_heights_step row_indices_step row_vertices_step)
  next
    case False
    have pt: "generate_point cfg x z i j (bstate n1 n2 n3 hs is vs) =
         Some (bstate n1 n2 n3 hs is (vs @ [point_vertex cfg x z i j]))"
      by (rule generate_point_border [OF hd False cv])
    have F': "\<not> (i < CHUNK_SIZE cfg \<and> j + 1 < CHUNK_SIZE cfg)" using False by auto
    have ih: "generate_columns cfg x z i (j + 1)
            (bstate n1 n2 n3 hs is (vs @ [point_vertex cfg x z i j])) =
          Some (bstate n1 n2 n3 (hs @ row_heights cfg x z i (j + 1))
                 (is @ row_indices cfg i (j + 1))
                 ((vs @ [point_vertex cfg x z i j]) @ row_vertices cfg x z i (j + 1)))"
      using Suc.prems(1,2) F'
      by (intro Suc.hyps(1) [OF k]) auto
    show ?thesis
      using j
      by (subst generate_columns.simps)
         (simp add: pt ih row_heights_done [OF False] row_indices_done [OF False]
            row_heights_done [OF F'] row_indices_done [OF F'] row_vertices_step)
  qed
qed

lemma grid_heights_step:
  "i \<le> CHUNK_SIZE cfg \<Longrightarrow>
   grid_heights cfg x z i = row_heights cfg x z i 0 @ grid_heights cfg x z (i + 1)"
  by (simp add: grid_heights_def upto_rec1 [of i])

lemma grid_indices_step:
  "i \<le> CHUNK_SIZE cfg \<Longrightarrow> grid_indices cfg i = row_indices cfg i 0 @ grid_indices cfg (i + 1)"
  by (simp add: grid_indices_def upto_rec1 [of i])

lemma grid_vertices_step:
  "i \<le> CHUNK_SIZE cfg \<Longrightarrow>
   grid_vertices cfg x z i = row_vertices cfg x z i 0 @ grid_vertices cfg x z (i + 1)"
  by (simp add: grid_vertices_def upto_rec1 [of i])

lemma grid_done:
  "\<not> i \<le> CHUNK_SIZE cfg \<Longrightarrow>
   grid_heights cfg x z i = [] \<and> grid_indices cfg i = [] \<and> grid_vertices cfg x z i = []"
  by (simp add: grid_heights_def grid_indices_def grid_vertices_def)

text \<open>
  The outer loop from row \<open>i\<close> on, for arrays of the sizes that \<^verbatim>\<open>generateChunk\<close>
  allocates.
\<close>

lemma generate_rows_bstate:
  assumes hd: "heights_defined cfg" and cs: "0 \<le> CHUNK_SIZE cfg"
    and n1: "int n1 = CHUNK_SIZE cfg * CHUNK_SIZE cfg"
    and n2: "int n2 = CHUNK_SIZE cfg * CHUNK_SIZE cfg * 6"
    and n3: "int n3 = (CHUNK_SIZE cfg + 1) * (CHUNK_SIZE cfg + 1)"
  shows "0 \<le> i \<Longrightarrow>
     (i \<le> CHUNK_SIZE cfg \<longrightarrow>
        int (length vs) = i * (CHUNK_SIZE cfg + 1) \<and>
        int (length hs) = i * CHUNK_SIZE cfg \<and>
        int (length is) = 6 * (i * CHUNK_SIZE cfg)) \<Longrightarrow>
     generate_rows cfg x z i (bstate n1 n2 n3 hs is vs) =
       Some (bstate n1 n2 n3 (hs @ grid_heights cfg x z i) (is @ grid_indices cfg i)
               (vs @ grid_vertices cfg x z i))"
proof (induction "nat (CHUNK_SIZE cfg + 1 - i)" arbitrary: i hs "is" vs)
  case 0
  then have "\<not> i \<le> CHUNK_SIZE cfg" by simp
  then show ?case
    by (subst generate_rows.simps) (simp add: grid_done)
next
  case (Suc k)
  then have i: "i \<le> CHUNK_SIZE cfg" by simp
  have k: "k = nat (CHUNK_SIZE cfg + 1 - (i + 1))" using Suc.hyps(2) by simp
  have lv: "int (length vs) = i * (CHUNK_SIZE cfg + 1)"
    and lh: "int (length hs) = i * CHUNK_SIZE cfg"
    and li: "int (length is) = 6 * (i * CHUNK_SIZE cfg)"
    using Suc.prems(2) i by simp_all
  have i1: "(i + 1) * (CHUNK_SIZE cfg + 1) \<le> (CHUNK_SIZE cfg + 1) * (CHUNK_SIZE cfg + 1)"
    using i cs by (intro mult_right_mono) simp_all
  have capv: "int (length vs) + (CHUNK_SIZE cfg + 1 - 0) \<le> int n3"
    using i1 by (simp add: lv n3 algebra_simps)
  have core: "i < CHUNK_SIZE cfg \<and> (0::int) < CHUNK_SIZE cfg \<longrightarrow>
        int (length hs) = i * CHUNK_SIZE cfg + 0 \<and>
        i * CHUNK_SIZE cfg + CHUNK_SIZE cfg \<le> int n1 \<and>
        int (length is) + 6 * (CHUNK_SIZE cfg - 0) \<le> int n2"
  proof (intro impI)
    assume a: "i < CHUNK_SIZE cfg \<and> (0::int) < CHUNK_SIZE cfg"
    then have "(i + 1) * CHUNK_SIZE cfg \<le> CHUNK_SIZE cfg * CHUNK_SIZE cfg"
      by (intro mult_right_mono) simp_all
    then show "int (length hs) = i * CHUNK_SIZE cfg + 0 \<and>
        i * CHUNK_SIZE cfg + CHUNK_SIZE cfg \<le> int n1 \<and>
        int (length is) + 6 * (CHUNK_SIZE cfg - 0) \<le> int n2"
      by (simp add: lh li n1 n2 algebra_simps)
  qed
  have cols: "generate_columns cfg x z i 0 (bstate n1 n2 n3 hs is vs) =
       Some (bstate n1 n2 n3 (hs @ row_heights cfg x z i 0) (is @ row_indices cfg i 0)
               (vs @ row_vertices cfg x z i 0))"
    by (rule generate_columns_bstate [OF hd _ capv core]) simp
  have lens: "i + 1 \<le> CHUNK_SIZE cfg \<longrightarrow>
        int (length (vs @ row_vertices cfg x z i 0)) = (i + 1) * (CHUNK_SIZE cfg + 1) \<and>
        int (length (hs @ row_heights cfg x z i 0)) = (i + 1) * CHUNK_SIZE cfg \<and>
        int (length (is @ row_indices cfg i 0)) = 6 * ((i + 1) * CHUNK_SIZE cfg)"
    using cs length_row_vertices [of 0 cfg x z i] length_row_heights [of 0 cfg i x z]
      length_row_indices [of 0 cfg i]
    by (simp add: lv lh li algebra_simps)
  have ih: "generate_rows cfg x z (i + 1)
       (bstate n1 n2 n3 (hs @ row_heights cfg x z i 0) (is @ row_indices cfg i 0)
               (vs @ row_vertices cfg x z i 0)) =
       Some (bstate n1 n2 n3 ((hs @ row_heights cfg x z i 0) @ grid_heights cfg x z (i + 1))
               ((is @ row_indices cfg i 0) @ grid_indices cfg (i + 1))
               ((vs @ row_vertices cfg x z i 0) @ grid_vertices cfg x z (i + 1)))"
    using Suc.prems(1) lens by (intro Suc.hyps(1) [OF k]) simp_all
  show ?case
    using i
    by (subst generate_rows.simps)
       (simp add: cols ih grid_heights_step grid_indices_step grid_vertices_step)
qed

lemma upto_last_row: "0 \<le> (n::int) \<Longrightarrow> [0..n] = [0..n - 1] @ [n]"
  by (rule upto_rec2) simp

lemma grid_heights_core:
  assumes "0 \<le> CHUNK_SIZE cfg"
  shows "grid_heights cfg x z 0 = core_heights cfg x z"
proof -
  have m: "map (\<lambda>i. row_heights cfg x z i 0) [0..CHUNK_SIZE cfg - 1] =
        map (\<lambda>i. map (point_height cfg x z i) [0..CHUNK_SIZE cfg - 1]) [0..CHUNK_SIZE cfg - 1]"
    by (rule map_cong) (simp_all add: row_heights_def)
  have l: "row_heights cfg x z (CHUNK_SIZE cfg) 0 = []"
    by (simp add: row_heights_def)
  show ?thesis
    by (simp add: grid_heights_def core_heights_def upto_last_row [OF assms] m l)
qed

lemma grid_indices_expected:
  assumes "0 \<le> CHUNK_SIZE cfg"
  shows "grid_indices cfg 0 = map Some (expected_indices cfg)"
proof -
  have m: "map (\<lambda>i. row_indices cfg i 0) [0..CHUNK_SIZE cfg - 1] =
        map (\<lambda>i. map Some (concat (map (cell_indices cfg i) [0..CHUNK_SIZE cfg - 1])))
          [0..CHUNK_SIZE cfg - 1]"
    by (rule map_cong) (simp_all add: row_indices_def map_concat comp_def)
  have l: "row_indices cfg (CHUNK_SIZE cfg) 0 = []"
    by (simp add: row_indices_def)
  show ?thesis
    by (simp add: grid_indices_def expected_indices_def upto_last_row [OF assms] m l
        map_concat comp_def)
qed

lemma grid_vertices_expected: "grid_vertices cfg x z 0 = expected_vertices cfg x z"
  by (simp add: grid_vertices_def expected_vertices_def row_vertices_def)

lemma length_core_heights:
  "0 \<le> CHUNK_SIZE cfg \<Longrightarrow> length (core_heights cfg x z) = nat (CHUNK_SIZE cfg * CHUNK_SIZE cfg)"
  by (simp add: core_heights_def length_concat_const [where k = "nat (CHUNK_SIZE cfg)"]
      nat_mult_distrib)

lemma length_row_cells:
  "0 \<le> CHUNK_SIZE cfg \<Longrightarrow>
   length (concat (map (cell_indices cfg i) [0..CHUNK_SIZE cfg - 1])) = 6 * nat (CHUNK_SIZE cfg)"
  by (simp add: length_concat_const [where k = 6] length_cell_indices)

lemma length_expected_indices:
  "0 \<le> CHUNK_SIZE cfg \<Longrightarrow>
   length (expected_indices cfg) = nat (CHUNK_SIZE cfg * CHUNK_SIZE cfg * 6)"
  by (simp add: expected_indices_def length_row_cells
      length_concat_const [where k = "6 * nat (CHUNK_SIZE cfg)"] nat_mult_distrib)

lemma length_expected_vertices:
  "0 \<le> CHUNK_SIZE cfg \<Longrightarrow>
   length (expected_vertices cfg x z) = nat ((CHUNK_SIZE cfg + 1) * (CHUNK_SIZE cfg + 1))"
  by (simp add: expected_vertices_def length_concat_const [where k = "nat (CHUNK_SIZE cfg + 1)"]
      nat_mult_distrib)



lemma filled_full: "length ys = n \<Longrightarrow> filled n ys = ys"
  by (simp add: filled_def)



lemma build_chunk_result:
  assumes cs: "0 \<le> CHUNK_SIZE cfg" and hd: "heights_defined cfg"
  shows "build_chunk cfg x z =
     Some \<lparr>chunk = \<lparr>chunk_t_x = x, chunk_t_z = z,
                    height_map = core_heights cfg x z, mesh = None\<rparr>,
           mesh_data = \<lparr>vertices = expected_vertices cfg x z,
                        vertices_count = (CHUNK_SIZE cfg + 1) * (CHUNK_SIZE cfg + 1),
                        indices = map Some (expected_indices cfg),
                        indices_count = CHUNK_SIZE cfg * CHUNK_SIZE cfg * 6\<rparr>\<rparr>"
proof -
  let ?n = "CHUNK_SIZE cfg"
  let ?n1 = "nat (?n * ?n)" and ?n2 = "nat (?n * ?n * 6)" and ?n3 = "nat ((?n + 1) * (?n + 1))"
  have s0: "\<lparr>data_points = malloc (?n * ?n), indices_buf = malloc (?n * ?n * 6),
             vertices_buf = malloc ((?n + 1) * (?n + 1)),
             indices_index = 0, vertices_index = 0\<rparr> = bstate ?n1 ?n2 ?n3 [] [] []"
    by (simp add: bstate_def filled_def malloc_def)
  have rows: "generate_rows cfg x z 0 (bstate ?n1 ?n2 ?n3 [] [] []) =
       Some (bstate ?n1 ?n2 ?n3 ([] @ grid_heights cfg x z 0) ([] @ grid_indices cfg 0)
               ([] @ grid_vertices cfg x z 0))"
    using cs by (intro generate_rows_bstate [OF hd cs]) simp_all
  show ?thesis
    unfolding build_chunk_def Let_def s0 rows
    using cs
    by (simp add: bstate_def grid_heights_core
        grid_indices_expected grid_vertices_expected filled_full length_core_heights
        length_expected_indices length_expected_vertices)
qed

lemma build_chunk_built:
  "0 \<le> CHUNK_SIZE cfg \<Longrightarrow> heights_defined cfg \<Longrightarrow> build_chunk cfg x z = Some (built_chunk cfg x z)"
  by (simp add: build_chunk_result built_chunk_def)

lemma demo_facts:
  "0 \<le> CHUNK_SIZE demo_config" "0 < chunk_generation_radius demo_config"
  "chunk_generation_radius demo_config = 10" "chunk_ceiling demo_config = 1000"
  "CHUNK_SIZE demo_config = 16" "0 < CHUNK_SIZE demo_config" "ring_fits demo_config 0 0"
  by (simp_all add: demo_config_def ring_fits_def int32_range_def)



section \<open>Properties of runs\<close>

lemma generateChunk_request:
  "0 \<le> CHUNK_SIZE cfg \<Longrightarrow> heights_defined cfg \<Longrightarrow>
   generateChunk cfg x z w = Some (request cfg (x, z) w)"
  by (simp add: generateChunk_def request_def build_chunk_built)

lemma run_append: "run cfg (as @ bs) w = run cfg bs (run cfg as w)"
  by (induction as arbitrary: w) simp_all

lemma request_fields:
  "chunks (request cfg c w) = chunks w"
  "destroyed (request cfg c w) = destroyed w"
  "worldGenerationThread (request cfg c w) = worldGenerationThread w"
  "observationPoint (request cfg c w) = observationPoint w"
  "drawables (request cfg c w) = drawables w"
  "worldObjects (request cfg c w) = worldObjects w"
  by (simp_all add: request_def)

lemma request_set_pc: "request cfg c (set_pc p w) = set_pc p (request cfg c w)"
  by (simp add: request_def set_pc_def)

lemma fold_request_set_pc:
  "fold (request cfg) cs (set_pc p w) = set_pc p (fold (request cfg) cs w)"
  by (induction cs arbitrary: w) (simp_all add: request_set_pc)

lemma set_pc_twice: "set_pc p (set_pc q w) = set_pc p w"
  by (simp add: set_pc_def)

lemma fold_request_closed:
  "fold (request cfg) cs w =
     w\<lparr>chunkMeshGenerationQueue :=
         chunkMeshGenerationQueue w @
         map (\<lambda>c. built_chunk cfg (fst c) (snd c))
           (filter (\<lambda>c. \<not> chunk_present (fst c) (snd c) (chunks w)) cs),
       trace := trace w @ map (request_event (chunks w)) cs\<rparr>"
proof (induction cs arbitrary: w)
  case Nil
  show ?case by simp
next
  case (Cons c cs)
  show ?case
    by (simp add: Cons.IH request_fields) (simp add: request_def request_event_def)
qed

lemma ring_fits_coordinate:
  assumes cs: "0 \<le> CHUNK_SIZE cfg" and fits: "ring_fits cfg px pz"
    and x: "- chunk_generation_radius cfg \<le> x" "x < chunk_generation_radius cfg"
  shows "chunk_coordinate cfg px x = Some (px + x * CHUNK_SIZE cfg)"
    and "chunk_coordinate cfg pz x = Some (pz + x * CHUNK_SIZE cfg)"
proof -
  let ?r = "chunk_generation_radius cfg" and ?n = "CHUNK_SIZE cfg"
  have lo: "- ?r * ?n \<le> x * ?n" using x(1) cs by (intro mult_right_mono) simp_all
  have "x \<le> ?r - 1" using x(2) by simp
  then have hi: "x * ?n \<le> (?r - 1) * ?n" using cs by (intro mult_right_mono) simp_all
  have f: "- (2 ^ 31) \<le> - ?r * ?n" "(?r - 1) * ?n < 2 ^ 31"
    "- (2 ^ 31) \<le> px - ?r * ?n" "px + (?r - 1) * ?n < 2 ^ 31"
    "- (2 ^ 31) \<le> pz - ?r * ?n" "pz + (?r - 1) * ?n < 2 ^ 31"
    using fits by (simp_all add: ring_fits_def Let_def int32_range_def)
  have a: "int32_range (x * ?n)" using lo hi f(1,2) by (simp add: int32_range_def)
  have b: "int32_range (px + x * ?n)" using lo hi f(3,4) by (simp add: int32_range_def)
  have c: "int32_range (pz + x * ?n)" using lo hi f(5,6) by (simp add: int32_range_def)
  show "chunk_coordinate cfg px x = Some (px + x * CHUNK_SIZE cfg)"
    using a b by (simp add: chunk_coordinate_def Let_def)
  show "chunk_coordinate cfg pz x = Some (pz + x * CHUNK_SIZE cfg)"
    using a c by (simp add: chunk_coordinate_def Let_def)
qed

lemma worker_step_ring:
  assumes "0 \<le> CHUNK_SIZE cfg" "heights_defined cfg"
    and "worldGenerationThread w = Some (Ring px pz x z)" "\<not> destroyed w"
    and "chunk_coordinate cfg px x = Some (px + x * CHUNK_SIZE cfg)"
    and "chunk_coordinate cfg pz z = Some (pz + z * CHUNK_SIZE cfg)"
  shows "worker_step cfg w = set_pc (next_ring cfg px pz x z) (request cfg (coord_at cfg px pz (x, z)) w)"
  using assms by (simp add: worker_step_def generateChunk_request coord_at_def)

lemma rest_offsets_inner:
  "z + 1 < r \<Longrightarrow> rest_offsets r x z = (x, z) # rest_offsets r x (z + 1)"
  by (simp add: rest_offsets_def upto_rec1 [of z])

lemma rest_offsets_outer:
  "z < r \<Longrightarrow> \<not> z + 1 < r \<Longrightarrow> x + 1 < r \<Longrightarrow> - r < r \<Longrightarrow>
   rest_offsets r x z = (x, z) # rest_offsets r (x + 1) (- r)"
  by (simp add: rest_offsets_def upto_rec1 [of z] upto_rec1 [of "x + 1"])

lemma rest_offsets_last:
  "z < r \<Longrightarrow> \<not> z + 1 < r \<Longrightarrow> \<not> x + 1 < r \<Longrightarrow> rest_offsets r x z = [(x, z)]"
  by (simp add: rest_offsets_def upto_rec1 [of z])

lemma ring_offsets_rest: "- r < r \<Longrightarrow> ring_offsets r = rest_offsets r (- r) (- r)"
  by (simp add: ring_offsets_def rest_offsets_def upto_rec1 [of "- r" "r - 1"])

text \<open>
  From a position inside the two loops the worker, left alone by a teardown and with
  a ring whose coordinates are values of \<^verbatim>\<open>int32_t\<close>, makes the calls for the offsets
  still to come, in their order, and arrives at the head of the \<^verbatim>\<open>while\<close> loop.
\<close>

lemma worker_ring_rest:
  assumes cs: "0 \<le> CHUNK_SIZE cfg" and hd: "heights_defined cfg"
    and r: "r = chunk_generation_radius cfg" "- r < r"
    and fits: "ring_fits cfg px pz"
  shows "n = length (rest_offsets r x z) \<Longrightarrow> z < r \<Longrightarrow>
     worldGenerationThread w = Some (Ring px pz x z) \<Longrightarrow> \<not> destroyed w \<Longrightarrow>
     - r \<le> x \<Longrightarrow> x < r \<Longrightarrow> - r \<le> z \<Longrightarrow>
     run cfg (replicate n WorkerStep) w =
       set_pc LoopHead (fold (request cfg) (map (coord_at cfg px pz) (rest_offsets r x z)) w)"
proof (induction n arbitrary: x z w)
  case 0
  then show ?case by (simp add: rest_offsets_def upto_rec1 [of z])
next
  case (Suc n)
  let ?w1 = "request cfg (coord_at cfg px pz (x, z)) w"
  have cx: "chunk_coordinate cfg px x = Some (px + x * CHUNK_SIZE cfg)"
    using Suc.prems(5,6) r(1) by (intro ring_fits_coordinate(1) [OF cs fits]) simp_all
  have cz: "chunk_coordinate cfg pz z = Some (pz + z * CHUNK_SIZE cfg)"
    using Suc.prems(2,7) r(1) by (intro ring_fits_coordinate(2) [OF cs fits]) simp_all
  have step: "worker_step cfg w = set_pc (next_ring cfg px pz x z) ?w1"
    by (rule worker_step_ring [OF cs hd Suc.prems(3,4) cx cz])
  consider (inner) "z + 1 < r" | (outer) "\<not> z + 1 < r" "x + 1 < r" | (last) "\<not> z + 1 < r" "\<not> x + 1 < r"
    by blast
  then show ?case
  proof cases
    case inner
    have ro: "rest_offsets r x z = (x, z) # rest_offsets r x (z + 1)"
      by (rule rest_offsets_inner [OF inner])
    have nx: "next_ring cfg px pz x z = Ring px pz x (z + 1)"
      using inner r(1) by (simp add: next_ring_def)
    have n: "n = length (rest_offsets r x (z + 1))" using Suc.prems(1) ro by simp
    have ih: "run cfg (replicate n WorkerStep) (set_pc (Ring px pz x (z + 1)) ?w1) =
        set_pc LoopHead (fold (request cfg) (map (coord_at cfg px pz) (rest_offsets r x (z + 1)))
          (set_pc (Ring px pz x (z + 1)) ?w1))"
      using inner Suc.prems(4,5,6,7)
      by (intro Suc.IH [OF n]) (simp_all add: set_pc_def request_fields)
    show ?thesis
      by (simp add: step nx ih ro fold_request_set_pc set_pc_twice)
  next
    case outer
    have ro: "rest_offsets r x z = (x, z) # rest_offsets r (x + 1) (- r)"
      by (rule rest_offsets_outer [OF Suc.prems(2) outer r(2)])
    have nx: "next_ring cfg px pz x z = Ring px pz (x + 1) (- r)"
      using outer r(1) by (simp add: next_ring_def)
    have n: "n = length (rest_offsets r (x + 1) (- r))" using Suc.prems(1) ro by simp
    have ih: "run cfg (replicate n WorkerStep) (set_pc (Ring px pz (x + 1) (- r)) ?w1) =
        set_pc LoopHead (fold (request cfg) (map (coord_at cfg px pz) (rest_offsets r (x + 1) (- r)))
          (set_pc (Ring px pz (x + 1) (- r)) ?w1))"
      using r(2) outer Suc.prems(4,5)
      by (intro Suc.IH [OF n]) (simp_all add: set_pc_def request_fields)
    show ?thesis
      by (simp add: step nx ih ro fold_request_set_pc set_pc_twice)
  next
    case last
    have ro: "rest_offsets r x z = [(x, z)]"
      by (rule rest_offsets_last [OF Suc.prems(2) last])
    have nx: "next_ring cfg px pz x z = LoopHead"
      using last r(1) by (simp add: next_ring_def)
    have n: "n = 0" using Suc.prems(1) ro by simp
    show ?thesis
      by (simp add: step nx ro n)
  qed
qed

lemma length_ring_offsets: "0 \<le> r \<Longrightarrow> length (ring_offsets r) = nat (2 * r) * nat (2 * r)"
  by (simp add: ring_offsets_def length_concat_const [where k = "nat (2 * r)"])

text \<open>
  One pass: from the head of the \<^verbatim>\<open>while\<close> loop, with the ceiling not exceeded, the
  worker requests the coordinates of the ring around the aligned observation point.
\<close>

lemma worker_pass:
  assumes cs: "0 \<le> CHUNK_SIZE cfg" and hd: "heights_defined cfg"
    and r: "0 < chunk_generation_radius cfg"
    and w: "worldGenerationThread w = Some LoopHead" "\<not> destroyed w"
      "length (chunks w) \<le> chunk_ceiling cfg"
    and obs: "observationPoint w = Some (ox, oy, oz)"
      "chunk_align cfg ox = Some px" "chunk_align cfg oz = Some pz"
    and fits: "ring_fits cfg px pz"
  shows "run cfg (replicate (Suc (nat (2 * chunk_generation_radius cfg) * nat (2 * chunk_generation_radius cfg))) WorkerStep) w =
         set_pc LoopHead (fold (request cfg) (ring_coords cfg px pz) w)"
proof -
  let ?r = "chunk_generation_radius cfg"
  have rr: "- ?r < ?r" using r by simp
  have step: "worker_step cfg w = set_pc (Ring px pz (- ?r) (- ?r)) w"
    using w obs rr by (simp add: worker_step_def enter_ring_def Let_def)
  have n: "nat (2 * ?r) * nat (2 * ?r) = length (rest_offsets ?r (- ?r) (- ?r))"
    using r length_ring_offsets [of ?r] ring_offsets_rest [OF rr] by simp
  have rest: "run cfg (replicate (nat (2 * ?r) * nat (2 * ?r)) WorkerStep) (set_pc (Ring px pz (- ?r) (- ?r)) w) =
       set_pc LoopHead (fold (request cfg) (map (coord_at cfg px pz) (rest_offsets ?r (- ?r) (- ?r)))
          (set_pc (Ring px pz (- ?r) (- ?r)) w))"
    using w(2) rr
    by (intro worker_ring_rest [OF cs hd refl rr fits n]) (simp_all add: set_pc_def)
  show ?thesis
    by (simp add: step rest ring_coords_def ring_offsets_rest [OF rr] fold_request_set_pc set_pc_twice)
qed

text \<open>
  Frame ticks upload the queued payloads from the front, one per tick.
\<close>

lemma frame_ticks:
  "n \<le> length (chunkMeshGenerationQueue w) \<Longrightarrow> \<not> destroyed w \<Longrightarrow>
   run cfg (replicate n FrameTick) w =
     w\<lparr>chunks := chunks w @ map uploaded (take n (chunkMeshGenerationQueue w)),
       chunkMeshGenerationQueue := drop n (chunkMeshGenerationQueue w),
       trace := trace w @ map upload_event (take n (chunkMeshGenerationQueue w))\<rparr>"
proof (induction n arbitrary: w)
  case 0
  show ?case by simp
next
  case (Suc n)
  then obtain d rest where q: "chunkMeshGenerationQueue w = d # rest"
    by (cases "chunkMeshGenerationQueue w") auto
  have r: "render w =
      w\<lparr>chunks := chunks w @ [uploaded d], chunkMeshGenerationQueue := rest,
        trace := trace w @ [upload_event d]\<rparr>"
    by (simp add: render_def q generateChunkMesh_def uploaded_def upload_event_def Let_def)
  show ?case
    using Suc.prems by (simp add: r q Suc.IH)
qed

lemma chunk_align_origin: "CHUNK_SIZE cfg \<noteq> 0 \<Longrightarrow> chunk_align cfg 0 = Some 0"
  by (simp add: chunk_align_def float_to_int32_def float_to_int_def)

lemma origin_entry:
  "worker_step cfg origin_World = set_pc LoopHead origin_World"
  by (simp add: worker_step_def origin_World_def startWorldGeneration_def new_World_def)

lemma origin_World_fields:
  "worldGenerationThread origin_World = Some Entry" "\<not> destroyed origin_World"
  "chunks origin_World = []" "chunkMeshGenerationQueue origin_World = []"
  "observationPoint origin_World = Some (0, 0, 0)" "trace origin_World = []"
  "worldObjects origin_World = []" "drawables origin_World = []"
  by (simp_all add: origin_World_def startWorldGeneration_def new_World_def)

text \<open>
  While no frame tick happens, \<^verbatim>\<open>chunks\<close> stays empty and every pass of the worker
  builds and queues the whole ring again.
\<close>

lemma fresh_passes:
  assumes cs: "0 < CHUNK_SIZE cfg" and hd: "heights_defined cfg"
    and r: "0 < chunk_generation_radius cfg"
    and fits: "ring_fits cfg 0 0"
  shows "worldGenerationThread w = Some LoopHead \<Longrightarrow> \<not> destroyed w \<Longrightarrow> chunks w = [] \<Longrightarrow>
     observationPoint w = Some (0, 0, 0) \<Longrightarrow>
     run cfg (concat (replicate k (one_pass cfg))) w =
       w\<lparr>chunkMeshGenerationQueue :=
            chunkMeshGenerationQueue w @
            concat (replicate k (map (\<lambda>c. built_chunk cfg (fst c) (snd c)) (ring_coords cfg 0 0))),
         trace := trace w @
            concat (replicate k (map (\<lambda>c. Build (fst c) (snd c)) (ring_coords cfg 0 0)))\<rparr>"
proof (induction k arbitrary: w)
  case 0
  show ?case by simp
next
  case (Suc k)
  let ?w1 = "set_pc LoopHead (fold (request cfg) (ring_coords cfg 0 0) w)"
  have cs0: "0 \<le> CHUNK_SIZE cfg" using cs by simp
  have ao: "chunk_align cfg 0 = Some 0" using cs by (simp add: chunk_align_origin)
  have p: "run cfg (one_pass cfg) w = ?w1"
    unfolding one_pass_def
    using Suc.prems by (intro worker_pass [OF cs0 hd r _ _ _ _ ao ao fits]) simp_all
  have w1: "?w1 = w\<lparr>chunkMeshGenerationQueue :=
            chunkMeshGenerationQueue w @ map (\<lambda>c. built_chunk cfg (fst c) (snd c)) (ring_coords cfg 0 0),
         trace := trace w @ map (\<lambda>c. Build (fst c) (snd c)) (ring_coords cfg 0 0)\<rparr>"
    using Suc.prems
    by (simp add: fold_request_closed set_pc_def request_event_def [abs_def])
  have ih: "run cfg (concat (replicate k (one_pass cfg))) ?w1 =
       ?w1\<lparr>chunkMeshGenerationQueue :=
            chunkMeshGenerationQueue ?w1 @
            concat (replicate k (map (\<lambda>c. built_chunk cfg (fst c) (snd c)) (ring_coords cfg 0 0))),
         trace := trace ?w1 @
            concat (replicate k (map (\<lambda>c. Build (fst c) (snd c)) (ring_coords cfg 0 0)))\<rparr>"
    using Suc.prems by (intro Suc.IH) (simp_all add: set_pc_def fold_request_closed)
  show ?case
    by (simp add: run_append p ih) (simp add: w1)
qed

lemma chunk_coord_uploaded_built:
  "chunk_coord (uploaded (built_chunk cfg x z)) = (x, z)"
  by (simp add: chunk_coord_def uploaded_def built_chunk_def)

lemma coords_uploaded_built:
  "map chunk_coord (map uploaded (map (\<lambda>c. built_chunk cfg (fst c) (snd c)) cs)) = cs"
  by (induction cs) (simp_all add: chunk_coord_uploaded_built)

lemma length_ring_coords:
  "0 \<le> chunk_generation_radius cfg \<Longrightarrow>
   length (ring_coords cfg px pz) =
     nat (2 * chunk_generation_radius cfg) * nat (2 * chunk_generation_radius cfg)"
  by (simp add: ring_coords_def length_ring_offsets)

lemma origin_passes:
  assumes cs: "0 < CHUNK_SIZE cfg" and hd: "heights_defined cfg"
    and r: "0 < chunk_generation_radius cfg"
    and fits: "ring_fits cfg 0 0"
  shows "run cfg (WorkerStep # concat (replicate k (one_pass cfg))) origin_World =
       origin_World\<lparr>worldGenerationThread := Some LoopHead,
         chunkMeshGenerationQueue :=
            concat (replicate k (map (\<lambda>c. built_chunk cfg (fst c) (snd c)) (ring_coords cfg 0 0))),
         trace := concat (replicate k (map (\<lambda>c. Build (fst c) (snd c)) (ring_coords cfg 0 0)))\<rparr>"
proof -
  have "run cfg (concat (replicate k (one_pass cfg))) (set_pc LoopHead origin_World) =
        (set_pc LoopHead origin_World)\<lparr>chunkMeshGenerationQueue :=
            chunkMeshGenerationQueue (set_pc LoopHead origin_World) @
            concat (replicate k (map (\<lambda>c. built_chunk cfg (fst c) (snd c)) (ring_coords cfg 0 0))),
         trace := trace (set_pc LoopHead origin_World) @
            concat (replicate k (map (\<lambda>c. Build (fst c) (snd c)) (ring_coords cfg 0 0)))\<rparr>"
    by (intro fresh_passes [OF cs hd r fits]) (simp_all add: set_pc_def origin_World_fields)
  then show ?thesis
    by (simp add: origin_entry) (simp add: set_pc_def origin_World_fields)
qed

lemma not_distinct_twice: "xs \<noteq> [] \<Longrightarrow> \<not> distinct (xs @ xs)"
  by (cases xs) auto

text \<open>
  Claim C1 does not hold for the code. \<^verbatim>\<open>generateChunk\<close> looks for the coordinate in
  \<^verbatim>\<open>chunks\<close> only, and a payload that is still in the queue is not found there. With
  the observation point at rest at the origin, let the worker finish two passes (one
  step at the entry, then twice the guard and 400 calls) before the first frame tick,
  and let 800 frame ticks follow. Every coordinate of the ring is then built twice:
  the build events are those of the ring followed by those of the ring again, and the
  coordinates of \<^verbatim>\<open>chunks\<close> are the 400 of the ring twice, so they are not distinct;
  the first of them is (-160, -160).
\<close>

theorem duplicate_build_run:
  "map chunk_coord
     (chunks (run demo_config
        (WorkerStep # concat (replicate 2 (one_pass demo_config)) @ replicate 800 FrameTick)
        origin_World)) =
     ring_coords demo_config 0 0 @ ring_coords demo_config 0 0 \<and>
   \<not> distinct (map chunk_coord
     (chunks (run demo_config
        (WorkerStep # concat (replicate 2 (one_pass demo_config)) @ replicate 800 FrameTick)
        origin_World))) \<and>
   build_events (trace (run demo_config
        (WorkerStep # concat (replicate 2 (one_pass demo_config))) origin_World)) =
     map (\<lambda>c. Build (fst c) (snd c)) (ring_coords demo_config 0 0 @ ring_coords demo_config 0 0) \<and>
   length (ring_coords demo_config 0 0) = 400 \<and>
   hd (ring_coords demo_config 0 0) = (- 160, - 160)"
proof -
  let ?ring = "ring_coords demo_config 0 0"
  define p where "p = WorkerStep # concat (replicate 2 (one_pass demo_config))"
  define w2 where "w2 = run demo_config p origin_World"
  have w2: "w2 = origin_World\<lparr>worldGenerationThread := Some LoopHead,
         chunkMeshGenerationQueue :=
            concat (replicate 2 (map (\<lambda>c. built_chunk demo_config (fst c) (snd c)) ?ring)),
         trace := concat (replicate 2 (map (\<lambda>c. Build (fst c) (snd c)) ?ring))\<rparr>"
    unfolding w2_def p_def
    by (rule origin_passes [OF demo_facts(6) heights_defined_demo demo_facts(2,7)])
  have len: "length ?ring = 400"
    by (simp add: length_ring_coords demo_facts)
  have q: "length (chunkMeshGenerationQueue w2) = 800"
    by (simp add: w2 len numeral_2_eq_2)
  have nd: "\<not> destroyed w2" by (simp add: w2 origin_World_fields)
  have ticks: "run demo_config (replicate 800 FrameTick) w2 =
     w2\<lparr>chunks := chunks w2 @ map uploaded (take 800 (chunkMeshGenerationQueue w2)),
       chunkMeshGenerationQueue := drop 800 (chunkMeshGenerationQueue w2),
       trace := trace w2 @ map upload_event (take 800 (chunkMeshGenerationQueue w2))\<rparr>"
    using q nd by (intro frame_ticks) simp_all
  have all: "run demo_config (p @ replicate 800 FrameTick) origin_World =
      run demo_config (replicate 800 FrameTick) w2"
    unfolding w2_def by (rule run_append)
  have "map chunk_coord (chunks (run demo_config (p @ replicate 800 FrameTick) origin_World)) =
      map chunk_coord (map uploaded (map (\<lambda>c. built_chunk demo_config (fst c) (snd c)) (?ring @ ?ring)))"
    unfolding all ticks
    by (simp add: q) (simp add: w2 origin_World_fields numeral_2_eq_2)
  then have coords: "map chunk_coord (chunks (run demo_config (p @ replicate 800 FrameTick) origin_World)) =
      ?ring @ ?ring"
    by (simp only: coords_uploaded_built)
  have ne: "?ring \<noteq> []" using len by auto
  have hd: "hd ?ring = (- 160, - 160)"
    by (simp add: ring_coords_def ring_offsets_def coord_at_def demo_config_def upto_rec1 [of "- 10" 9])
  have be: "build_events (trace w2) = map (\<lambda>c. Build (fst c) (snd c)) (?ring @ ?ring)"
    by (simp add: w2 numeral_2_eq_2 build_events_def)
  show ?thesis
    using coords not_distinct_twice [OF ne] be len hd
    unfolding w2_def p_def append_Cons by simp
qed

text \<open>
  Claim C2 does not hold for the code. The guard at the head of the \<^verbatim>\<open>while\<close> loop
  looks at the size of \<^verbatim>\<open>chunks\<close> only, once per pass, and asks for more than 1000;
  payloads that wait in the queue are not counted and are uploaded whatever the guard
  said. With the observation point at rest at the origin, let the worker finish three
  passes before the first frame tick: 1200 payloads are queued, and after 1200 frame
  ticks \<^verbatim>\<open>chunks\<close> holds 1200 chunks, above the ceiling of 1000. After 1000 frame ticks
  it holds exactly 1000, and the next step of the worker does not return but enters
  the ring again.
\<close>

theorem ceiling_exceeded_run:
  "length (chunks (run demo_config
        (WorkerStep # concat (replicate 3 (one_pass demo_config)) @ replicate 1200 FrameTick)
        origin_World)) = 1200 \<and>
   chunk_ceiling demo_config = 1000 \<and>
   length (chunks (run demo_config
        (WorkerStep # concat (replicate 3 (one_pass demo_config)) @ replicate 1000 FrameTick)
        origin_World)) = 1000 \<and>
   worldGenerationThread (run demo_config
        (WorkerStep # concat (replicate 3 (one_pass demo_config)) @ replicate 1000 FrameTick @ [WorkerStep])
        origin_World) = Some (Ring 0 0 (- 10) (- 10))"
proof -
  let ?ring = "ring_coords demo_config 0 0"
  define p where "p = WorkerStep # concat (replicate 3 (one_pass demo_config))"
  define w3 where "w3 = run demo_config p origin_World"
  have w3: "w3 = origin_World\<lparr>worldGenerationThread := Some LoopHead,
         chunkMeshGenerationQueue :=
            concat (replicate 3 (map (\<lambda>c. built_chunk demo_config (fst c) (snd c)) ?ring)),
         trace := concat (replicate 3 (map (\<lambda>c. Build (fst c) (snd c)) ?ring))\<rparr>"
    unfolding w3_def p_def
    by (rule origin_passes [OF demo_facts(6) heights_defined_demo demo_facts(2,7)])
  have len: "length ?ring = 400"
    by (simp add: length_ring_coords demo_facts)
  have q: "length (chunkMeshGenerationQueue w3) = 1200"
    by (simp add: w3 len numeral_3_eq_3)
  have f: "\<not> destroyed w3" "chunks w3 = []" "worldGenerationThread w3 = Some LoopHead"
    "observationPoint w3 = Some (0, 0, 0)"
    by (simp_all add: w3 origin_World_fields)
  have ticks: "n \<le> 1200 \<Longrightarrow> run demo_config (replicate n FrameTick) w3 =
     w3\<lparr>chunks := chunks w3 @ map uploaded (take n (chunkMeshGenerationQueue w3)),
       chunkMeshGenerationQueue := drop n (chunkMeshGenerationQueue w3),
       trace := trace w3 @ map upload_event (take n (chunkMeshGenerationQueue w3))\<rparr>" for n
    using q f by (intro frame_ticks) simp_all
  have all: "run demo_config (p @ s) origin_World = run demo_config s w3" for s
    unfolding w3_def by (rule run_append)
  have a: "length (chunks (run demo_config (p @ replicate 1200 FrameTick) origin_World)) = 1200"
    unfolding all by (simp add: ticks q f)
  have b: "length (chunks (run demo_config (p @ replicate 1000 FrameTick) origin_World)) = 1000"
    unfolding all by (simp add: ticks q f)
  have c: "worldGenerationThread (run demo_config (p @ replicate 1000 FrameTick @ [WorkerStep]) origin_World) =
      Some (Ring 0 0 (- 10) (- 10))"
    by (subst all, subst run_append)
       (simp add: ticks q f worker_step_def demo_facts chunk_align_origin enter_ring_def set_pc_def)
  show ?thesis using a b c
    unfolding p_def append_Cons by (simp add: demo_facts)
qed



















text \<open>
  Near the upper end of \<^verbatim>\<open>int32_t\<close> the sum for a call overflows, which the model
  reports as a fault: with the centre 2147483520 the offset 9 has no coordinate.
\<close>

lemma chunk_coordinate_overflow: "chunk_coordinate demo_config 2147483520 9 = None"
  by (simp add: chunk_coordinate_def demo_config_def int32_range_def)





lemma build_events_append: "build_events (xs @ ys) = build_events xs @ build_events ys"
  by (simp add: build_events_def)

lemma null_observation_step:
  assumes "observationPoint w = None"
    and "worldGenerationThread w = Some Entry \<or> worldGenerationThread w = Some Returned"
  shows "observationPoint (perform cfg a w) = None \<and>
         (worldGenerationThread (perform cfg a w) = Some Entry \<or>
          worldGenerationThread (perform cfg a w) = Some Returned) \<and>
         build_events (trace (perform cfg a w)) = build_events (trace w)"
proof (cases a)
  case WorkerStep
  then show ?thesis using assms
    by (auto simp: worker_step_def set_pc_def build_events_def)
next
  case FrameTick
  then show ?thesis using assms
    by (auto simp: render_def generateChunkMesh_def Let_def build_events_def split: list.splits)
next
  case (MoveObservation p)
  then show ?thesis using assms by (auto simp: move_observation_def)
next
  case (StartGeneration obs)
  then show ?thesis using assms by (auto simp: startWorldGeneration_def)
next
  case Teardown
  then show ?thesis using assms by (auto simp: World_destructor_def)
qed

lemma null_observation_run:
  "observationPoint w = None \<Longrightarrow>
   worldGenerationThread w = Some Entry \<or> worldGenerationThread w = Some Returned \<Longrightarrow>
   build_events (trace (run cfg sched w)) = build_events (trace w)"
proof (induction sched arbitrary: w)
  case Nil
  show ?case by simp
next
  case (Cons a sched)
  have s: "observationPoint (perform cfg a w) = None \<and>
         (worldGenerationThread (perform cfg a w) = Some Entry \<or>
          worldGenerationThread (perform cfg a w) = Some Returned) \<and>
         build_events (trace (perform cfg a w)) = build_events (trace w)"
    by (rule null_observation_step [OF Cons.prems])
  then have "build_events (trace (run cfg sched (perform cfg a w))) =
      build_events (trace (perform cfg a w))"
    by (intro Cons.IH) simp_all
  then show ?case using s by simp
qed

text \<open>
  Claim C8, as stated, fails: the call changes the World. Started with a null
  observation point, a World that holds a drawable and a world object loses both, and
  its thread pointer is set.
\<close>

theorem null_start_unchanged_counterexample:
  "drawables cluttered_World = [1] \<and> worldObjects cluttered_World = [2] \<and>
   worldGenerationThread cluttered_World = None \<and>
   drawables (startWorldGeneration None cluttered_World) = [] \<and>
   worldObjects (startWorldGeneration None cluttered_World) = [] \<and>
   worldGenerationThread (startWorldGeneration None cluttered_World) = Some Entry \<and>
   startWorldGeneration None cluttered_World \<noteq> cluttered_World"
proof -
  have a: "drawables cluttered_World = [1]" "worldObjects cluttered_World = [2]"
    "worldGenerationThread cluttered_World = None"
    "drawables (startWorldGeneration None cluttered_World) = []"
    "worldObjects (startWorldGeneration None cluttered_World) = []"
    "worldGenerationThread (startWorldGeneration None cluttered_World) = Some Entry"
    by (simp_all add: cluttered_World_def new_World_def startWorldGeneration_def)
  have "startWorldGeneration None cluttered_World \<noteq> cluttered_World"
  proof
    assume "startWorldGeneration None cluttered_World = cluttered_World"
    then have "drawables (startWorldGeneration None cluttered_World) = drawables cluttered_World"
      by simp
    then show False by (simp only: a) simp
  qed
  then show ?thesis using a by simp
qed

text \<open>
  Claim C8, amended. When no generation thread exists yet, starting generation with a
  null observation point leaves \<^verbatim>\<open>chunks\<close> and the queue as they are, empties
  \<^verbatim>\<open>drawables\<close> and \<^verbatim>\<open>worldObjects\<close>, and creates the thread, so that every later
  start is without effect. The first step of that thread writes the diagnostic and
  returns, without touching \<^verbatim>\<open>chunks\<close> or the queue; and whatever happens afterwards,
  no chunk is ever built.
\<close>

theorem null_start_no_chunks:
  assumes "worldGenerationThread w = None"
  shows "chunks (startWorldGeneration None w) = chunks w \<and>
     chunkMeshGenerationQueue (startWorldGeneration None w) = chunkMeshGenerationQueue w \<and>
     trace (startWorldGeneration None w) = trace w \<and>
     drawables (startWorldGeneration None w) = [] \<and>
     worldObjects (startWorldGeneration None w) = [] \<and>
     worldGenerationThread (startWorldGeneration None w) = Some Entry \<and>
     startWorldGeneration obs (startWorldGeneration None w) = startWorldGeneration None w \<and>
     trace (worker_step cfg (startWorldGeneration None w)) =
       trace w @ [Diagnostic ''No observation point provided, aborting world generation.''] \<and>
     worldGenerationThread (worker_step cfg (startWorldGeneration None w)) = Some Returned \<and>
     chunks (worker_step cfg (startWorldGeneration None w)) = chunks w \<and>
     chunkMeshGenerationQueue (worker_step cfg (startWorldGeneration None w)) =
       chunkMeshGenerationQueue w \<and>
     (\<forall>sched. build_events (trace (run cfg sched (startWorldGeneration None w))) =
              build_events (trace w))"
proof -
  let ?w = "startWorldGeneration None w"
  have f: "chunks ?w = chunks w" "chunkMeshGenerationQueue ?w = chunkMeshGenerationQueue w"
    "trace ?w = trace w" "drawables ?w = []" "worldObjects ?w = []"
    "worldGenerationThread ?w = Some Entry" "observationPoint ?w = None"
    using assms by (simp_all add: startWorldGeneration_def)
  have again: "startWorldGeneration obs ?w = ?w"
    using f(6) by (simp add: startWorldGeneration_def)
  have step: "worker_step cfg ?w =
      set_pc Returned (?w\<lparr>trace := trace ?w @
         [Diagnostic ''No observation point provided, aborting world generation.'']\<rparr>)"
    by (simp add: worker_step_def f)
  have never: "build_events (trace (run cfg sched ?w)) = build_events (trace w)" for sched
    using null_observation_run [of ?w cfg sched] f by simp
  show ?thesis
    unfolding step using f again never by (simp add: set_pc_def)
qed

text \<open>
  Claim C8, amended, at a concrete input. For the World with a drawable and a world
  object: the diagnostic is the whole trace
  after the first step of the worker, the worker has returned, and a run of a worker
  step, a frame tick and another worker step builds nothing.
\<close>

theorem null_start_no_chunks_witness:
  "trace (worker_step demo_config (startWorldGeneration None cluttered_World)) =
     [Diagnostic ''No observation point provided, aborting world generation.''] \<and>
   worldGenerationThread (worker_step demo_config (startWorldGeneration None cluttered_World)) =
     Some Returned \<and>
   build_events (trace (run demo_config [WorkerStep, FrameTick, WorkerStep]
      (startWorldGeneration None cluttered_World))) = []"
proof -
  have n: "worldGenerationThread cluttered_World = None"
    and t: "trace cluttered_World = []"
    by (simp_all add: cluttered_World_def new_World_def)
  show ?thesis
    using null_start_no_chunks [OF n, of None demo_config]
    by (simp only: t) (simp add: build_events_def)
qed

text \<open>
  Claim C9 does not hold for the code. The destructor detaches the thread; there is no
  flag and no join, so the control state of the worker is the same after the
  destructor as before it. With the observation point at the origin, let the worker
  take three steps (entry, guard, first call) and let the teardown follow: the worker
  stands before its second call. Its next step reads the destroyed World.
\<close>

theorem teardown_leaves_worker_running:
  "worldGenerationThread (World_destructor w) = worldGenerationThread w \<and>
   worldGenerationThread
     (run demo_config [WorkerStep, WorkerStep, WorkerStep, Teardown] origin_World) =
     Some (Ring 0 0 (- 10) (- 9)) \<and>
   destroyed (run demo_config [WorkerStep, WorkerStep, WorkerStep, Teardown] origin_World) \<and>
   trace (run demo_config [WorkerStep, WorkerStep, WorkerStep, Teardown, WorkerStep] origin_World) =
     [Build (- 160) (- 160), UseAfterDestroy] \<and>
   worldGenerationThread
     (run demo_config [WorkerStep, WorkerStep, WorkerStep, Teardown, WorkerStep] origin_World) =
     Some Faulted"
proof -
  have s1: "worker_step demo_config origin_World = set_pc LoopHead origin_World"
    by (rule origin_entry)
  have s2: "worker_step demo_config (set_pc LoopHead origin_World) =
      set_pc (Ring 0 0 (- 10) (- 10)) origin_World"
    by (simp add: worker_step_def set_pc_def origin_World_fields chunk_align_origin
        enter_ring_def demo_facts)
  have s3: "worker_step demo_config (set_pc (Ring 0 0 (- 10) (- 10)) origin_World) =
      set_pc (Ring 0 0 (- 10) (- 9)) (request demo_config (- 160, - 160) origin_World)"
    using worker_step_ring [OF demo_facts(1) heights_defined_demo,
        of "set_pc (Ring 0 0 (- 10) (- 10)) origin_World" 0 0 "- 10" "- 10"]
    by (simp add: set_pc_def origin_World_fields request_set_pc [unfolded set_pc_def]
        coord_at_def next_ring_def demo_facts chunk_coordinate_def int32_range_def)
  have r: "request demo_config (- 160, - 160) origin_World =
      origin_World\<lparr>chunkMeshGenerationQueue := [built_chunk demo_config (- 160) (- 160)],
        trace := [Build (- 160) (- 160)]\<rparr>"
    by (simp add: request_def origin_World_fields)
  show ?thesis
    by (simp add: s1 s2 s3 r) 
       (simp add: World_destructor_def set_pc_def worker_step_def origin_World_fields)
qed

end
